theory Spec2Isabelle
  imports Complex_Main "HOL-Library.Word"
begin

section \<open>Soft actor-critic agent of \<^verbatim>\<open>sac_impl.hpp\<close>\<close>

text \<open>
  The class \<^verbatim>\<open>SAC\<close> orchestrates collaborators it receives as template arguments:
  an environment, two kinds of network (critic and policy), a loss function, an
  optimizer, a replay buffer, and Armadillo's random generator. None of them is part
  of the file; they are the fields of the record \<open>collaborators\<close> below and every
  theorem holds for all of them. What the file itself writes with Armadillo
  (\<^verbatim>\<open>join_vert\<close>, \<^verbatim>\<open>+\<close>, \<^verbatim>\<open>%\<close>, \<^verbatim>\<open>min\<close>, \<^verbatim>\<open>rows\<close>, \<^verbatim>\<open>clamp\<close>) is modelled here,
  with the size checks that make Armadillo throw.

  A \<^verbatim>\<open>double\<close> is modelled as a \<open>real\<close>: rounding is not modelled. A \<^verbatim>\<open>size_t\<close> is a
  64-bit word. An element of an \<^verbatim>\<open>arma::irowvec\<close> is an \<open>int\<close>.
\<close>

subsection \<open>Errors\<close>

datatype error =
    DimMismatch        \<comment> \<open>Armadillo: incompatible matrix dimensions\<close>
  | IndexOutOfBounds   \<comment> \<open>Armadillo: index out of bounds, or a read past the end\<close>
  | DivByZero          \<comment> \<open>\<^verbatim>\<open>%\<close> on \<^verbatim>\<open>size_t\<close> with divisor 0\<close>

definition ebind :: "error + 'a \<Rightarrow> ('a \<Rightarrow> error + 'b) \<Rightarrow> error + 'b" where
  "ebind x f = (case x of Inl e \<Rightarrow> Inl e | Inr v \<Rightarrow> f v)"

subsection \<open>Armadillo values\<close>

text \<open>
  A matrix is the list of its columns, a row vector the list of its entries, a column
  vector the list of its entries. The matrix with no column is written \<open>[]\<close>; its
  number of rows is taken to be 0. Where Armadillo accepts a degenerate empty operand
  the model may refuse it, never the other way round.
\<close>

type_synonym mat = "real list list"
type_synonym rowvec = "real list"
type_synonym colvec = "real list"
type_synonym irowvec = "int list"
type_synonym size_t = "64 word"

definition n_cols :: "mat \<Rightarrow> nat" where
  "n_cols M = length M"

definition n_rows :: "mat \<Rightarrow> nat" where
  "n_rows M = (case M of [] \<Rightarrow> 0 | c # _ \<Rightarrow> length c)"

definition is_empty :: "mat \<Rightarrow> bool" where
  "is_empty M = (concat M = [])"

definition same_size :: "mat \<Rightarrow> mat \<Rightarrow> bool" where
  "same_size A B = (map length A = map length B)"

definition mat_scale :: "real \<Rightarrow> mat \<Rightarrow> mat" where
  "mat_scale k M = map (map (\<lambda>x. k * x)) M"

definition mat_neg :: "mat \<Rightarrow> mat" where
  "mat_neg M = map (map uminus) M"

definition mat_add :: "mat \<Rightarrow> mat \<Rightarrow> error + mat" where
  "mat_add A B =
     (if same_size A B then Inr (map2 (map2 (+)) A B) else Inl DimMismatch)"

definition zeros_like :: "mat \<Rightarrow> mat" where
  \<comment> \<open>\<^verbatim>\<open>copy_size\<close> followed by \<^verbatim>\<open>fill(0.0)\<close>\<close>
  "zeros_like M = map (map (\<lambda>_. 0)) M"

definition join_vert :: "mat \<Rightarrow> mat \<Rightarrow> error + mat" where
  "join_vert A B =
     (if length A = length B then Inr (map2 (@) A B) else Inl DimMismatch)"

definition mat_of_rowvec :: "rowvec \<Rightarrow> mat" where
  "mat_of_rowvec r = map (\<lambda>x. [x]) r"

definition rowvec_of :: "mat \<Rightarrow> error + rowvec" where
  \<comment> \<open>a result written into an \<^verbatim>\<open>arma::rowvec\<close> must have one row\<close>
  "rowvec_of M =
     (if list_all (\<lambda>c. length c = 1) M then Inr (map hd M) else Inl DimMismatch)"

definition colvec_of :: "mat \<Rightarrow> error + colvec" where
  \<comment> \<open>a result written into an \<^verbatim>\<open>arma::colvec\<close> must have one column\<close>
  "colvec_of M = (case M of [c] \<Rightarrow> Inr c | _ \<Rightarrow> Inl DimMismatch)"

definition rows_upto :: "mat \<Rightarrow> nat \<Rightarrow> error + mat" where
  \<comment> \<open>\<^verbatim>\<open>M.rows(0, n - 1)\<close> with \<open>n\<close> a \<^verbatim>\<open>uword\<close>: for \<open>n = 0\<close> the bound wraps around\<close>
  "rows_upto M n =
     (if n = 0 \<or> n_rows M < n then Inl IndexOutOfBounds else Inr (map (take n) M))"

definition vec_add :: "rowvec \<Rightarrow> rowvec \<Rightarrow> error + rowvec" where
  "vec_add a b =
     (if length a = length b then Inr (map2 (+) a b) else Inl DimMismatch)"

definition arma_min :: "rowvec \<Rightarrow> rowvec \<Rightarrow> error + rowvec" where
  \<comment> \<open>\<^verbatim>\<open>arma::min(A, B)\<close>, element-wise\<close>
  "arma_min a b =
     (if length a = length b then Inr (map2 min a b) else Inl DimMismatch)"

definition clamp :: "rowvec \<Rightarrow> real \<Rightarrow> real \<Rightarrow> rowvec" where
  "clamp v lo hi = map (\<lambda>x. if x < lo then lo else if hi < x then hi else x) v"

text \<open>
  Arithmetic on an integer row vector. Armadillo declares scalar-times-expression as
  \<^verbatim>\<open>operator*(const typename T1::elem_type k, const T1& X)\<close>: the scalar is taken at
  the element type of the expression. A \<^verbatim>\<open>double\<close> that multiplies an expression over
  \<^verbatim>\<open>arma::irowvec\<close> is therefore first converted to the integer element type, which in
  C++ truncates towards zero. The element-wise product \<^verbatim>\<open>%\<close> of an integer expression
  with a \<^verbatim>\<open>double\<close> one is declared for mixed element types and yields \<^verbatim>\<open>double\<close>.
\<close>

definition sword_of_double :: "real \<Rightarrow> int" where
  \<comment> \<open>C++ conversion of a \<^verbatim>\<open>double\<close> to a signed integer\<close>
  "sword_of_double x = (if 0 \<le> x then \<lfloor>x\<rfloor> else \<lceil>x\<rceil>)"

definition scalar_minus_pre :: "int \<Rightarrow> irowvec \<Rightarrow> irowvec" where
  \<comment> \<open>\<^verbatim>\<open>k - v\<close>\<close>
  "scalar_minus_pre k v = map (\<lambda>t. k - t) v"

definition scalar_times :: "int \<Rightarrow> irowvec \<Rightarrow> irowvec" where
  \<comment> \<open>\<^verbatim>\<open>k * v\<close>, with \<open>k\<close> already at the element type\<close>
  "scalar_times k v = map (\<lambda>t. k * t) v"

definition schur_mixed :: "irowvec \<Rightarrow> rowvec \<Rightarrow> error + rowvec" where
  \<comment> \<open>\<^verbatim>\<open>a % b\<close> for an integer and a \<^verbatim>\<open>double\<close> operand\<close>
  "schur_mixed a b =
     (if length a = length b then Inr (map2 (\<lambda>t x. real_of_int t * x) a b)
      else Inl DimMismatch)"

subsection \<open>Configuration, transitions, batches\<close>

text \<open>
  \<^verbatim>\<open>TrainingConfig\<close> is declared outside the file; the record holds the five accessors
  the file calls.
\<close>

record TrainingConfig =
  StepSize :: real
  Discount :: real
  StepLimit :: size_t
  ExplorationSteps :: size_t
  TargetNetworkSyncInterval :: size_t

text \<open>The six arguments of \<^verbatim>\<open>replayMethod.Store\<close>, in the order of the call.\<close>

record 'st transition =
  tr_state :: 'st
  tr_action :: "real list"
  tr_reward :: real
  tr_nextState :: 'st
  tr_isEnd :: bool
  tr_discount :: real

text \<open>The five outputs of \<^verbatim>\<open>replayMethod.Sample\<close>.\<close>

record batch =
  sampledStates :: mat
  sampledActions :: "real list list"
  sampledRewards :: rowvec
  sampledNextStates :: mat
  isTerminal :: irowvec

subsection \<open>Collaborators\<close>

text \<open>
  A network is represented by its parameter matrix; its architecture is fixed by the
  functions of this record. \<^verbatim>\<open>Forward\<close> stores activations that \<^verbatim>\<open>Backward\<close> reads: in
  the file every \<^verbatim>\<open>Backward\<close> follows a \<^verbatim>\<open>Forward\<close> of the same network on the same
  input, with the parameters unchanged in between, so \<^verbatim>\<open>Backward\<close> is a function of
  parameters, input and output gradient. The environment and the replay buffer carry
  their own state; the random generator is threaded through the calls that draw
  from it.
\<close>

record ('st, 'e, 'rp, 'u, 'g) collaborators =
  env_InitialSample :: "'e \<Rightarrow> 'st \<times> 'e"
  env_IsTerminal :: "'e \<Rightarrow> 'st \<Rightarrow> bool"
  env_Sample :: "'e \<Rightarrow> 'st \<Rightarrow> real list \<Rightarrow> (real \<times> 'st) \<times> 'e"
  Encode :: "'st \<Rightarrow> colvec"
  action_size :: nat
  policy_Predict :: "mat \<Rightarrow> mat \<Rightarrow> mat"
  policy_Forward :: "mat \<Rightarrow> mat \<Rightarrow> mat"
  policy_Backward :: "mat \<Rightarrow> mat \<Rightarrow> mat \<Rightarrow> mat"
  policy_ResetParameters :: "mat \<Rightarrow> 'g \<Rightarrow> mat \<times> 'g"
  q_Predict :: "mat \<Rightarrow> mat \<Rightarrow> mat"
  q_Forward :: "mat \<Rightarrow> mat \<Rightarrow> mat"
  q_Backward :: "mat \<Rightarrow> mat \<Rightarrow> mat \<Rightarrow> mat"
  q_ResetParameters :: "mat \<Rightarrow> 'g \<Rightarrow> mat \<times> 'g"
  loss_Backward :: "rowvec \<Rightarrow> rowvec \<Rightarrow> mat"
  updater_Initialize :: "'u \<Rightarrow> nat \<Rightarrow> nat \<Rightarrow> 'u"
  updater_Update :: "'u \<Rightarrow> mat \<Rightarrow> real \<Rightarrow> mat \<Rightarrow> mat \<times> 'u"
  replay_Store :: "'st transition \<Rightarrow> 'rp \<Rightarrow> 'rp"
  replay_Sample :: "'rp \<Rightarrow> batch \<times> 'rp"
  randu :: "nat \<Rightarrow> 'g \<Rightarrow> rowvec \<times> 'g"

subsection \<open>The agent\<close>

text \<open>
  The members of the class. The file is written for two versions of the optimizer
  library, chosen by \<^verbatim>\<open>ENS_VERSION_MAJOR\<close>. In both there is one optimizer object for
  the critics (\<^verbatim>\<open>qNetworkUpdater\<close>, or \<^verbatim>\<open>qNetworkUpdatePolicy\<close> built from it) and one for
  the policy (\<^verbatim>\<open>policyNetworkUpdater\<close>, or \<^verbatim>\<open>policyNetworkUpdatePolicy\<close> built from it;
  line 244 calls the former \<^verbatim>\<open>policyUpdater\<close>). An optimizer object is modelled by its
  state. The networks \<^verbatim>\<open>learningQ1Network\<close> and \<^verbatim>\<open>policyNetwork\<close> and the replay buffer
  are references to objects of the caller; nothing else reaches them while a member
  function runs, so they are fields like the others.
\<close>

record ('st, 'e, 'rp, 'u, 'g) agent =
  learningQ1Network :: mat
  learningQ2Network :: mat
  targetQ1Network :: mat
  targetQ2Network :: mat
  policyNetwork :: mat
  replayMethod :: 'rp
  qNetworkUpdater :: 'u
  policyNetworkUpdater :: 'u
  environment :: 'e
  totalSteps :: size_t
  deterministic :: bool
  state :: 'st
  action :: "real list"
  rng :: 'g

text \<open>The constructor, lines 36 to 89. \<open>state0\<close> and \<open>action0\<close> are the default-constructed members.\<close>

definition SAC ::
  "('st, 'e, 'rp, 'u, 'g) collaborators \<Rightarrow> mat \<Rightarrow> mat \<Rightarrow> 'rp \<Rightarrow> 'u \<Rightarrow> 'u \<Rightarrow> 'e \<Rightarrow> 'g \<Rightarrow> 'st \<Rightarrow> real list
     \<Rightarrow> ('st, 'e, 'rp, 'u, 'g) agent" where
  "SAC ifc learningQ1 policy replay qUpdater policyUpdater env g state0 action0 =
     (let (q1, g1) = (if is_empty learningQ1 then q_ResetParameters ifc learningQ1 g
                      else (learningQ1, g));
          (q2, g2) = q_ResetParameters ifc q1 g1;
          (pol, g3) = (if is_empty policy then policy_ResetParameters ifc policy g2
                       else (policy, g2))
      in \<lparr> learningQ1Network = q1,
           learningQ2Network = q2,
           targetQ1Network = q1,
           targetQ2Network = q2,
           policyNetwork = pol,
           replayMethod = replay,
           qNetworkUpdater = updater_Initialize ifc qUpdater (n_rows q1) (n_cols q1),
           policyNetworkUpdater = updater_Initialize ifc policyUpdater (n_rows pol) (n_cols pol),
           environment = env,
           totalSteps = 0,
           deterministic = False,
           state = state0,
           action = action0,
           rng = g3 \<rparr>)"

text \<open>\<^verbatim>\<open>SoftUpdate\<close>, lines 125 to 131.\<close>

definition SoftUpdate ::
  "real \<Rightarrow> ('st, 'e, 'rp, 'u, 'g) agent \<Rightarrow> error + ('st, 'e, 'rp, 'u, 'g) agent" where
  "SoftUpdate rho s =
     ebind (mat_add (mat_scale (1 - rho) (targetQ1Network s))
                    (mat_scale rho (learningQ1Network s))) (\<lambda>t1.
     let s1 = s\<lparr>targetQ1Network := t1\<rparr> in
     ebind (mat_add (mat_scale (1 - rho) (targetQ2Network s1))
                    (mat_scale rho (learningQ2Network s1))) (\<lambda>t2.
     Inr (s1\<lparr>targetQ2Network := t2\<rparr>)))"

subsection \<open>\<^verbatim>\<open>Update\<close>, lines 146 to 253\<close>

text \<open>
  Lines 160 to 170: the regression target \<^verbatim>\<open>nextQ\<close>. In line 169 the operators \<^verbatim>\<open>*\<close>
  and \<^verbatim>\<open>%\<close> have the same precedence and associate to the left, so the product
  \<^verbatim>\<open>config.Discount() * (1 - isTerminal)\<close> is formed first, over the integer row vector
  \<^verbatim>\<open>isTerminal\<close> of line 153.
\<close>

definition Update_nextQ ::
  "('st, 'e, 'rp, 'u, 'g) collaborators \<Rightarrow> TrainingConfig \<Rightarrow> ('st, 'e, 'rp, 'u, 'g) agent
     \<Rightarrow> batch \<Rightarrow> error + rowvec" where
  "Update_nextQ ifc config s b =
     (let nextStateActions = policy_Predict ifc (policyNetwork s) (sampledNextStates b) in
      ebind (join_vert nextStateActions (sampledNextStates b)) (\<lambda>targetQInput.
      ebind (rowvec_of (q_Predict ifc (targetQ1Network s) targetQInput)) (\<lambda>Q1.
      ebind (rowvec_of (q_Predict ifc (targetQ2Network s) targetQInput)) (\<lambda>Q2.
      ebind (arma_min Q1 Q2) (\<lambda>minQ.
      ebind (schur_mixed
               (scalar_times (sword_of_double (Discount config))
                  (scalar_minus_pre 1 (isTerminal b))) minQ) (\<lambda>bootstrap.
      vec_add (sampledRewards b) bootstrap))))))"

text \<open>
  Lines 172 to 174: one column per sampled action, set from the scalar \<^verbatim>\<open>action[0]\<close>.
  Assigning a scalar to a column requires the column to have one element.
\<close>

definition action_values :: "nat \<Rightarrow> real list list \<Rightarrow> error + mat" where
  "action_values size_a acts =
     (if acts = [] then Inr []
      else if size_a \<noteq> 1 then Inl DimMismatch
      else if [] \<in> set acts then Inl IndexOutOfBounds
      else Inr (map (\<lambda>a. [hd a]) acts))"

text \<open>Lines 175 to 201: both critics regress on \<^verbatim>\<open>nextQ\<close>; one optimizer object serves both.\<close>

definition Update_critics ::
  "('st, 'e, 'rp, 'u, 'g) collaborators \<Rightarrow> TrainingConfig \<Rightarrow> ('st, 'e, 'rp, 'u, 'g) agent
     \<Rightarrow> batch \<Rightarrow> rowvec \<Rightarrow> error + ('st, 'e, 'rp, 'u, 'g) agent" where
  "Update_critics ifc config s b nextQ =
     ebind (action_values (action_size ifc) (sampledActions b)) (\<lambda>sampledActionValues.
     ebind (join_vert sampledActionValues (sampledStates b)) (\<lambda>learningQInput.
     ebind (rowvec_of (q_Forward ifc (learningQ1Network s) learningQInput)) (\<lambda>Q1.
     ebind (rowvec_of (q_Forward ifc (learningQ2Network s) learningQInput)) (\<lambda>Q2.
     let gradQ1Loss = loss_Backward ifc Q1 nextQ;
         gradQ2Loss = loss_Backward ifc Q2 nextQ;
         gradientQ1 = q_Backward ifc (learningQ1Network s) learningQInput gradQ1Loss;
         (p1, u1) = updater_Update ifc (qNetworkUpdater s) (learningQ1Network s)
                      (StepSize config) gradientQ1;
         s1 = s\<lparr>learningQ1Network := p1, qNetworkUpdater := u1\<rparr>;
         gradientQ2 = q_Backward ifc (learningQ2Network s1) learningQInput gradQ2Loss;
         (p2, u2) = updater_Update ifc (qNetworkUpdater s1) (learningQ2Network s1)
                      (StepSize config) gradientQ2
     in Inr (s1\<lparr>learningQ2Network := p2, qNetworkUpdater := u2\<rparr>)))))"

text \<open>Lines 215 to 233: the policy gradient of sample \<open>i\<close>.\<close>

definition sample_gradient ::
  "('st, 'e, 'rp, 'u, 'g) collaborators \<Rightarrow> ('st, 'e, 'rp, 'u, 'g) agent
     \<Rightarrow> mat \<Rightarrow> rowvec \<Rightarrow> rowvec \<Rightarrow> rowvec \<Rightarrow> nat \<Rightarrow> error + mat" where
  "sample_gradient ifc s states piv Q1 Q2 i =
     (if length states \<le> i \<or> length piv \<le> i then Inl IndexOutOfBounds
      else
        let singleState = states ! i in
        ebind (colvec_of (policy_Forward ifc (policyNetwork s) [singleState])) (\<lambda>singlePi.
        let input = singlePi @ singleState in
        if length Q1 \<le> i \<or> length Q2 \<le> i then Inl IndexOutOfBounds
        else
          let gradQ =
                (if Q1 ! i < Q2 ! i
                 then q_Backward ifc (learningQ1Network s) [input]
                        (mat_neg (q_Forward ifc (learningQ1Network s) [input]))
                 else q_Backward ifc (learningQ2Network s) [input]
                        (mat_neg (q_Forward ifc (learningQ2Network s) [input])))
          in ebind (rows_upto gradQ (length singlePi)) (\<lambda>gradPolicy.
             Inr (policy_Backward ifc (policyNetwork s) [singleState] gradPolicy))))"

text \<open>Lines 212 to 240: the loop over the samples, with the accumulator \<^verbatim>\<open>gradient\<close>.\<close>

fun gradient_loop ::
  "('st, 'e, 'rp, 'u, 'g) collaborators \<Rightarrow> ('st, 'e, 'rp, 'u, 'g) agent
     \<Rightarrow> mat \<Rightarrow> rowvec \<Rightarrow> rowvec \<Rightarrow> rowvec \<Rightarrow> nat list \<Rightarrow> mat \<Rightarrow> error + mat" where
  "gradient_loop ifc s states piv Q1 Q2 [] gradient = Inr gradient"
| "gradient_loop ifc s states piv Q1 Q2 (i # rest) gradient =
     ebind (sample_gradient ifc s states piv Q1 Q2 i) (\<lambda>grad.
     ebind (mat_add (if i = 0 then zeros_like grad else gradient) grad) (\<lambda>gradient'.
     gradient_loop ifc s states piv Q1 Q2 rest gradient'))"

text \<open>Lines 203 to 248: the actor update.\<close>

definition Update_actor ::
  "('st, 'e, 'rp, 'u, 'g) collaborators \<Rightarrow> TrainingConfig \<Rightarrow> ('st, 'e, 'rp, 'u, 'g) agent
     \<Rightarrow> batch \<Rightarrow> error + ('st, 'e, 'rp, 'u, 'g) agent" where
  "Update_actor ifc config s b =
     ebind (rowvec_of (policy_Predict ifc (policyNetwork s) (sampledStates b))) (\<lambda>piv.
     ebind (join_vert (mat_of_rowvec piv) (sampledStates b)) (\<lambda>qInput.
     ebind (rowvec_of (q_Predict ifc (learningQ1Network s) qInput)) (\<lambda>Q1.
     ebind (rowvec_of (q_Predict ifc (learningQ2Network s) qInput)) (\<lambda>Q2.
     ebind (gradient_loop ifc s (sampledStates b) piv Q1 Q2
              [0 ..< n_cols (sampledStates b)] []) (\<lambda>gradient.
     let (p, u) = updater_Update ifc (policyNetworkUpdater s) (policyNetwork s)
                    (StepSize config) gradient
     in Inr (s\<lparr>policyNetwork := p, policyNetworkUpdater := u\<rparr>))))))"

text \<open>Lines 250 to 252. The remainder of a division by 0 is undefined in C++.\<close>

definition Update_target ::
  "TrainingConfig \<Rightarrow> ('st, 'e, 'rp, 'u, 'g) agent \<Rightarrow> error + ('st, 'e, 'rp, 'u, 'g) agent" where
  "Update_target config s =
     (if TargetNetworkSyncInterval config = 0 then Inl DivByZero
      else if totalSteps s mod TargetNetworkSyncInterval config = 0
           then SoftUpdate (5 / 1000) s
           else Inr s)"

definition Update ::
  "('st, 'e, 'rp, 'u, 'g) collaborators \<Rightarrow> TrainingConfig \<Rightarrow> ('st, 'e, 'rp, 'u, 'g) agent
     \<Rightarrow> error + ('st, 'e, 'rp, 'u, 'g) agent" where
  "Update ifc config s =
     (let (b, rp) = replay_Sample ifc (replayMethod s);
          s0 = s\<lparr>replayMethod := rp\<rparr>
      in ebind (Update_nextQ ifc config s0 b) (\<lambda>nextQ.
         ebind (Update_critics ifc config s0 b nextQ) (\<lambda>s1.
         ebind (Update_actor ifc config s1 b) (\<lambda>s2.
         Update_target config s2))))"

subsection \<open>\<^verbatim>\<open>SelectAction\<close>, lines 268 to 281\<close>

text \<open>
  \<^verbatim>\<open>outputAction\<close> is an \<^verbatim>\<open>arma::rowvec\<close>, so \<^verbatim>\<open>outputAction.n_rows\<close> is 1 and one number is
  drawn. \<^verbatim>\<open>outputAction[0]\<close> is not bounds-checked; reading it from an empty vector is an
  error of the model.
\<close>

definition SelectAction ::
  "('st, 'e, 'rp, 'u, 'g) collaborators \<Rightarrow> ('st, 'e, 'rp, 'u, 'g) agent
     \<Rightarrow> error + ('st, 'e, 'rp, 'u, 'g) agent" where
  "SelectAction ifc s =
     ebind (rowvec_of (policy_Predict ifc (policyNetwork s) [Encode ifc (state s)]))
       (\<lambda>outputAction.
     ebind (if \<not> deterministic s
            then let (u, g) = randu ifc 1 (rng s);
                     noise = map (\<lambda>x. x * (1 / 10)) u;
                     noise = clamp noise (- (25 / 100)) (25 / 100)
                 in ebind (vec_add outputAction noise) (\<lambda>out. Inr (out, s\<lparr>rng := g\<rparr>))
            else Inr (outputAction, s)) (\<lambda>(outputAction, s1).
     if outputAction = [] then Inl IndexOutOfBounds
     else Inr (s1\<lparr>action := (action s1)[0 := outputAction ! 0]\<rparr>)))"

subsection \<open>\<^verbatim>\<open>Episode\<close>, lines 296 to 335\<close>

text \<open>Lines 312 to 327: act, step the environment, count, store, move to the next state.\<close>

definition Episode_interact ::
  "('st, 'e, 'rp, 'u, 'g) collaborators \<Rightarrow> TrainingConfig \<Rightarrow> ('st, 'e, 'rp, 'u, 'g) agent
     \<Rightarrow> error + (real \<times> ('st, 'e, 'rp, 'u, 'g) agent)" where
  "Episode_interact ifc config s =
     ebind (SelectAction ifc s) (\<lambda>s1.
     let ((reward, nextState), env) = env_Sample ifc (environment s1) (state s1) (action s1);
         s2 = s1\<lparr>environment := env, totalSteps := totalSteps s1 + 1\<rparr>;
         s3 = s2\<lparr>replayMethod :=
                   replay_Store ifc
                     \<lparr> tr_state = state s2, tr_action = action s2, tr_reward = reward,
                       tr_nextState = nextState,
                       tr_isEnd = env_IsTerminal ifc (environment s2) nextState,
                       tr_discount = Discount config \<rparr>
                     (replayMethod s2)\<rparr>
     in Inr (reward, s3\<lparr>state := nextState\<rparr>))"

text \<open>Lines 312 to 331: one pass through the loop body, returning the reward of the step.\<close>

definition Episode_body ::
  "('st, 'e, 'rp, 'u, 'g) collaborators \<Rightarrow> TrainingConfig \<Rightarrow> ('st, 'e, 'rp, 'u, 'g) agent
     \<Rightarrow> error + (real \<times> ('st, 'e, 'rp, 'u, 'g) agent)" where
  "Episode_body ifc config s =
     ebind (Episode_interact ifc config s) (\<lambda>(reward, s4).
     if deterministic s4 \<or> totalSteps s4 < ExplorationSteps config then Inr (reward, s4)
     else ebind (Update ifc config s4) (\<lambda>s5. Inr (reward, s5)))"

text \<open>
  Lines 308 to 332: the loop, with the locals \<^verbatim>\<open>steps\<close> and \<^verbatim>\<open>totalReturn\<close>. It need not
  terminate: \<open>None\<close> is the run that never leaves the loop.
\<close>

partial_function (option) Episode_loop ::
  "('st, 'e, 'rp, 'u, 'g) collaborators \<Rightarrow> TrainingConfig \<Rightarrow> size_t \<Rightarrow> real
     \<Rightarrow> ('st, 'e, 'rp, 'u, 'g) agent
     \<Rightarrow> (error + (real \<times> ('st, 'e, 'rp, 'u, 'g) agent)) option" where
  "Episode_loop ifc config steps totalReturn s =
     (if env_IsTerminal ifc (environment s) (state s) then Some (Inr (totalReturn, s))
      else if StepLimit config \<noteq> 0 \<and> StepLimit config \<le> steps
           then Some (Inr (totalReturn, s))
      else case Episode_body ifc config s of
             Inl e \<Rightarrow> Some (Inl e)
           | Inr (reward, s') \<Rightarrow>
               Episode_loop ifc config (steps + 1) (totalReturn + reward) s')"

definition Episode ::
  "('st, 'e, 'rp, 'u, 'g) collaborators \<Rightarrow> TrainingConfig \<Rightarrow> ('st, 'e, 'rp, 'u, 'g) agent
     \<Rightarrow> (error + (real \<times> ('st, 'e, 'rp, 'u, 'g) agent)) option" where
  "Episode ifc config s =
     (let (st, env) = env_InitialSample ifc (environment s)
      in Episode_loop ifc config 0 0 (s\<lparr>state := st, environment := env\<rparr>))"

subsection \<open>Runs\<close>

text \<open>
  Two ways of running the agent, used to state properties of several steps. The first
  runs one learning update at each of the given values of the lifetime step counter.
  The second runs the body of the episode loop a given number of times and collects
  the rewards.
\<close>

fun Updates_at ::
  "('st, 'e, 'rp, 'u, 'g) collaborators \<Rightarrow> TrainingConfig \<Rightarrow> size_t list
     \<Rightarrow> ('st, 'e, 'rp, 'u, 'g) agent \<Rightarrow> error + ('st, 'e, 'rp, 'u, 'g) agent" where
  "Updates_at ifc config [] s = Inr s"
| "Updates_at ifc config (c # cs) s =
     ebind (Update ifc config (s\<lparr>totalSteps := c\<rparr>)) (Updates_at ifc config cs)"

fun Episode_steps ::
  "('st, 'e, 'rp, 'u, 'g) collaborators \<Rightarrow> TrainingConfig \<Rightarrow> nat
     \<Rightarrow> ('st, 'e, 'rp, 'u, 'g) agent
     \<Rightarrow> error + (real list \<times> ('st, 'e, 'rp, 'u, 'g) agent)" where
  "Episode_steps ifc config 0 s = Inr ([], s)"
| "Episode_steps ifc config (Suc n) s =
     ebind (Episode_body ifc config s) (\<lambda>(reward, s1).
     ebind (Episode_steps ifc config n s1) (\<lambda>(rewards, s2).
     Inr (reward # rewards, s2)))"

subsection \<open>A small instance\<close>

text \<open>
  Collaborators simple enough to run by hand, used where a theorem is applied to a
  concrete agent. States are numbers; the environment has no terminal state and pays
  2 for every step; the discount is 1; a network with parameter \<open>w\<close> answers \<open>w\<close> for every input column
  and hands an output gradient back as its parameter gradient; the loss gradient is
  prediction minus target; the optimizer accumulates the gradients it has seen
  (momentum) and steps along the accumulated value; the replay buffer is the list of
  stored transitions and always samples the same batch of one transition.
\<close>

definition demo_batch :: batch where
  "demo_batch = \<lparr> sampledStates = [[0]], sampledActions = [[0]], sampledRewards = [0],
                  sampledNextStates = [[0]], isTerminal = [0] \<rparr>"

definition demo_ifc :: "(real, unit, real transition list, real, nat) collaborators" where
  "demo_ifc =
     \<lparr> env_InitialSample = (\<lambda>e. (0, e)),
       env_IsTerminal = (\<lambda>e st. False),
       env_Sample = (\<lambda>e st a. ((2, st + 1), e)),
       Encode = (\<lambda>st. [st]),
       action_size = 1,
       policy_Predict = (\<lambda>p X. map (\<lambda>c. [hd (hd p)]) X),
       policy_Forward = (\<lambda>p X. map (\<lambda>c. [hd (hd p)]) X),
       policy_Backward = (\<lambda>p X gy. gy),
       policy_ResetParameters = (\<lambda>p g. ([[real g]], Suc g)),
       q_Predict = (\<lambda>p X. map (\<lambda>c. [hd (hd p)]) X),
       q_Forward = (\<lambda>p X. map (\<lambda>c. [hd (hd p)]) X),
       q_Backward = (\<lambda>p X gy. gy),
       q_ResetParameters = (\<lambda>p g. ([[real g]], Suc g)),
       loss_Backward = (\<lambda>pred target. map2 (\<lambda>p t. [p - t]) pred target),
       updater_Initialize = (\<lambda>u r c. u),
       updater_Update =
         (\<lambda>u p step g. (map (map (\<lambda>x. x - step * (u + hd (hd g)))) p, u + hd (hd g))),
       replay_Store = (\<lambda>tr rp. tr # rp),
       replay_Sample = (\<lambda>rp. (demo_batch, rp)),
       randu = (\<lambda>n g. (replicate n (1 / 2), Suc g)) \<rparr>"

definition demo_config :: TrainingConfig where
  "demo_config = \<lparr> StepSize = 1 / 2, Discount = 1, StepLimit = 2, ExplorationSteps = 2,
                   TargetNetworkSyncInterval = 2 \<rparr>"

definition demo_agent :: "(real, unit, real transition list, real, nat) agent" where
  "demo_agent =
     \<lparr> learningQ1Network = [[2]], learningQ2Network = [[3]],
       targetQ1Network = [[1]], targetQ2Network = [[4]],
       policyNetwork = [[5]], replayMethod = [], qNetworkUpdater = 0,
       policyNetworkUpdater = 0, environment = (), totalSteps = 1, deterministic = False,
       state = 0, action = [0], rng = 0 \<rparr>"

text \<open>
  The agent after the first interaction of an episode from \<open>demo_agent\<close>, and after
  the learning update of that step. A variant of the environment in which every state
  from 1 on is terminal, a configuration without step limit, and one with discount
  0.99 instead of 1.
\<close>

definition demo_stepped :: "(real, unit, real transition list, real, nat) agent" where
  "demo_stepped =
     demo_agent\<lparr>replayMethod :=
                  [\<lparr> tr_state = 0, tr_action = [101 / 20], tr_reward = 2, tr_nextState = 1,
                     tr_isEnd = False, tr_discount = 1 \<rparr>],
                totalSteps := 2, state := 1, action := [101 / 20], rng := 1\<rparr>"

definition demo_learned :: "(real, unit, real transition list, real, nat) agent" where
  "demo_learned =
     demo_stepped\<lparr>learningQ1Network := [[3 / 2]], learningQ2Network := [[3 / 2]],
                  targetQ1Network := [[401 / 400]], targetQ2Network := [[319 / 80]],
                  policyNetwork := [[23 / 4]], qNetworkUpdater := 3,
                  policyNetworkUpdater := - (3 / 2)\<rparr>"

definition demo_ifc_terminal :: "(real, unit, real transition list, real, nat) collaborators" where
  "demo_ifc_terminal = demo_ifc\<lparr>env_IsTerminal := (\<lambda>e st. 1 \<le> st)\<rparr>"

definition demo_config_unlimited :: TrainingConfig where
  "demo_config_unlimited = demo_config\<lparr>StepLimit := 0\<rparr>"

definition demo_config_discounted :: TrainingConfig where
  "demo_config_discounted = demo_config\<lparr>Discount := 99 / 100\<rparr>"

subsection \<open>An instance with linear networks\<close>

text \<open>
  A network with parameters \<open>w\<close> that maps every input column \<open>x\<close> to the one number
  \<open>w \<bullet> x\<close>. For an output gradient \<open>g\<close>, one number per column, the gradient of the
  loss with respect to the parameters is the sum over the columns of \<open>g\<^sub>j * x\<^sub>j\<close>, and
  the gradient with respect to column \<open>j\<close> of the input is \<open>g\<^sub>j * w\<close>. \<^verbatim>\<open>Backward\<close> returns
  the first, since lines 186 to 200 hand its result to the optimizer as the step for
  the parameters. The critics have two parameters, for an input of one action and one
  state feature; the policy has one parameter. The optimizer is plain gradient
  descent. The batch holds two transitions, from the states 1 and -1.
\<close>

definition dot :: "real list \<Rightarrow> real list \<Rightarrow> real" where
  "dot w x = sum_list (map2 (*) w x)"

definition lin_Forward :: "mat \<Rightarrow> mat \<Rightarrow> mat" where
  "lin_Forward p X = map (\<lambda>c. [dot (hd p) c]) X"

definition lin_Backward :: "mat \<Rightarrow> mat \<Rightarrow> mat \<Rightarrow> mat" where
  \<comment> \<open>the gradient with respect to the parameters\<close>
  "lin_Backward p X gy =
     [foldr (map2 (+)) (map2 (\<lambda>c g. map (\<lambda>x. hd g * x) c) X gy) (map (\<lambda>_. 0) (hd p))]"

definition lin_input_gradient :: "mat \<Rightarrow> mat \<Rightarrow> mat \<Rightarrow> mat" where
  \<comment> \<open>the gradient with respect to the input, one column per input column\<close>
  "lin_input_gradient p X gy = map (\<lambda>g. map (\<lambda>w. hd g * w) (hd p)) gy"

definition lin_batch :: batch where
  "lin_batch = \<lparr> sampledStates = [[1], [- 1]], sampledActions = [[0], [0]],
                 sampledRewards = [0, 0], sampledNextStates = [[0], [0]],
                 isTerminal = [1, 1] \<rparr>"

definition lin_ifc :: "(real, unit, real transition list, real, nat) collaborators" where
  "lin_ifc =
     demo_ifc\<lparr>policy_Predict := lin_Forward, policy_Forward := lin_Forward,
              policy_Backward := lin_Backward,
              q_Predict := lin_Forward, q_Forward := lin_Forward, q_Backward := lin_Backward,
              updater_Update := (\<lambda>u p step g. (map2 (map2 (\<lambda>x d. x - step * d)) p g, u)),
              replay_Sample := (\<lambda>rp. (lin_batch, rp))\<rparr>"

definition lin_agent :: "(real, unit, real transition list, real, nat) agent" where
  "lin_agent =
     demo_agent\<lparr>learningQ1Network := [[1, 1]], learningQ2Network := [[2, 1]],
                targetQ1Network := [[1, 1]], targetQ2Network := [[2, 1]],
                policyNetwork := [[3]]\<rparr>"

section \<open>Properties\<close>

subsection \<open>Auxiliary facts\<close>

lemma ebind_simps [simp]: "ebind (Inl e) f = Inl e" "ebind (Inr v) f = f v"
  by (simp_all add: ebind_def)

lemma ebind_eq_Inr: "(ebind x f = Inr y) = (\<exists>v. x = Inr v \<and> f v = Inr y)"
  by (cases x) simp_all

lemma same_size_scale: "same_size (mat_scale a A) (mat_scale b B) = same_size A B"
  by (simp add: same_size_def mat_scale_def comp_def)

lemma map2_map_map: "map2 f (map g xs) (map h ys) = map2 (\<lambda>x y. f (g x) (h y)) xs ys"
  by (induction xs arbitrary: ys) (auto simp: zip_Cons1 split: list.splits)

lemma mat_add_scaled:
  "same_size A B \<Longrightarrow>
   mat_add (mat_scale a A) (mat_scale b B) = Inr (map2 (map2 (\<lambda>t l. a * t + b * l)) A B)"
  by (simp add: mat_add_def same_size_scale) (simp add: mat_scale_def map2_map_map)

lemma rowvec_of_Inr:
  "rowvec_of M = Inr r \<Longrightarrow> r = map hd M \<and> list_all (\<lambda>c. length c = 1) M"
  by (auto simp: rowvec_of_def split: if_splits)

lemma vec_add_Inr:
  "vec_add a b = Inr c \<Longrightarrow> length a = length b \<and> c = map2 (+) a b"
  by (auto simp: vec_add_def split: if_splits)

lemma mat_add_Inr:
  "mat_add A B = Inr C \<Longrightarrow> same_size A B \<and> C = map2 (map2 (+)) A B"
  by (auto simp: mat_add_def split: if_splits)

lemma colvec_of_Inr: "colvec_of M = Inr c \<Longrightarrow> M = [c]"
  by (auto simp: colvec_of_def split: list.splits)

lemma rows_upto_Inr:
  "rows_upto M n = Inr R \<Longrightarrow> 0 < n \<and> n \<le> n_rows M \<and> R = map (take n) M"
  by (auto simp: rows_upto_def split: if_splits)

lemma arma_min_Inr: "arma_min a b = Inr c \<Longrightarrow> length a = length b \<and> c = map2 min a b"
  by (auto simp: arma_min_def split: if_splits)

lemma schur_mixed_Inr:
  "schur_mixed a b = Inr c \<Longrightarrow>
   length a = length b \<and> c = map2 (\<lambda>t x. real_of_int t * x) a b"
  by (auto simp: schur_mixed_def split: if_splits)

lemma same_size_nth:
  "same_size A B \<Longrightarrow> length A = length B \<and> (\<forall>c < length A. length (A ! c) = length (B ! c))"
  unfolding same_size_def
  by (metis length_map nth_map)

lemma same_size_refl: "same_size A A"
  by (simp add: same_size_def)

lemma same_size_sym: "same_size A B \<Longrightarrow> same_size B A"
  by (simp add: same_size_def)

lemma same_size_trans: "same_size A B \<Longrightarrow> same_size B C \<Longrightarrow> same_size A C"
  by (simp add: same_size_def)

lemma same_size_map2: "same_size A B \<Longrightarrow> same_size (map2 (map2 f) A B) A"
  unfolding same_size_def
proof (induction A arbitrary: B)
  case Nil
  then show ?case by simp
next
  case (Cons a A)
  then show ?case by (cases B) auto
qed

lemma map2_nth:
  "same_size A B \<Longrightarrow> c < length A \<Longrightarrow> r < length (A ! c) \<Longrightarrow>
   map2 (map2 f) A B ! c ! r = f (A ! c ! r) (B ! c ! r)"
  by (auto dest!: same_size_nth)

lemma mat_add_zeros: "mat_add (zeros_like G) G = Inr G"
proof -
  have "map2 (+) (map (\<lambda>_. 0) c) c = c" for c :: "real list"
    by (induction c) auto
  then have "map2 (map2 (+)) (map (map (\<lambda>_. 0)) G) G = G"
    by (induction G) auto
  then show ?thesis
    by (simp add: mat_add_def zeros_like_def same_size_def comp_def)
qed

lemma word_mod_eq_0_iff: "(a mod b = 0) = (unat b dvd unat a)" for a b :: "'a::len word"
  by (metis dvd_eq_mod_eq_0 unat_eq_zero unat_mod)

subsection \<open>What each part of the agent writes\<close>

lemma SelectAction_frame:
  assumes "SelectAction ifc s = Inr s'"
  shows "\<exists>a g. s' = s\<lparr>action := a, rng := g\<rparr>"
proof (cases "deterministic s")
  case True
  with assms have "s' = s\<lparr>action := action s', rng := rng s\<rparr>"
    by (auto simp: SelectAction_def ebind_eq_Inr split: if_splits)
  then show ?thesis by blast
next
  case False
  with assms have "s' = s\<lparr>action := action s', rng := snd (randu ifc 1 (rng s))\<rparr>"
    by (auto simp: SelectAction_def ebind_eq_Inr Let_def split_beta split: if_splits)
  then show ?thesis by blast
qed

lemma SoftUpdate_Inr:
  assumes "SoftUpdate rho s = Inr s'"
  shows "s' = s\<lparr>targetQ1Network :=
                    map2 (map2 (\<lambda>t l. (1 - rho) * t + rho * l))
                      (targetQ1Network s) (learningQ1Network s),
                  targetQ2Network :=
                    map2 (map2 (\<lambda>t l. (1 - rho) * t + rho * l))
                      (targetQ2Network s) (learningQ2Network s)\<rparr>"
proof -
  from assms have "same_size (targetQ1Network s) (learningQ1Network s)"
    and "same_size (targetQ2Network s) (learningQ2Network s)"
    by (auto simp: SoftUpdate_def ebind_eq_Inr Let_def same_size_scale dest!: mat_add_Inr)
  with assms show ?thesis
    by (simp add: SoftUpdate_def mat_add_scaled Let_def)
qed

lemma Update_critics_frame:
  "Update_critics ifc config s b nextQ = Inr s' \<Longrightarrow>
   \<exists>p1 p2 u. s' = s\<lparr>learningQ1Network := p1, learningQ2Network := p2, qNetworkUpdater := u\<rparr>"
  by (auto simp: Update_critics_def ebind_eq_Inr Let_def split_beta)

lemma Update_actor_frame:
  "Update_actor ifc config s b = Inr s' \<Longrightarrow>
   \<exists>p u. s' = s\<lparr>policyNetwork := p, policyNetworkUpdater := u\<rparr>"
  by (auto simp: Update_actor_def ebind_eq_Inr Let_def split_beta)

lemma Update_target_frame:
  "Update_target config s = Inr s' \<Longrightarrow>
   \<exists>t1 t2. s' = s\<lparr>targetQ1Network := t1, targetQ2Network := t2\<rparr>"
  apply (auto simp: Update_target_def split: if_splits dest!: SoftUpdate_Inr)
  by (rule exI[of _ "targetQ1Network s"], rule exI[of _ "targetQ2Network s"]) simp

lemma Update_Inr:
  assumes "Update ifc config s = Inr s'"
  shows "\<exists>b rp nextQ s1 s2.
           replay_Sample ifc (replayMethod s) = (b, rp) \<and>
           Update_nextQ ifc config (s\<lparr>replayMethod := rp\<rparr>) b = Inr nextQ \<and>
           Update_critics ifc config (s\<lparr>replayMethod := rp\<rparr>) b nextQ = Inr s1 \<and>
           Update_actor ifc config s1 b = Inr s2 \<and>
           Update_target config s2 = Inr s'"
  using assms by (auto simp: Update_def ebind_eq_Inr Let_def split: prod.splits)

lemma Update_frame:
  assumes "Update ifc config s = Inr s'"
  shows "totalSteps s' = totalSteps s \<and> deterministic s' = deterministic s \<and>
         state s' = state s \<and> action s' = action s \<and> environment s' = environment s \<and>
         rng s' = rng s \<and> replayMethod s' = snd (replay_Sample ifc (replayMethod s))"
proof -
  from Update_Inr[OF assms] obtain b rp nextQ s1 s2 where
    "replay_Sample ifc (replayMethod s) = (b, rp)"
    "Update_critics ifc config (s\<lparr>replayMethod := rp\<rparr>) b nextQ = Inr s1"
    "Update_actor ifc config s1 b = Inr s2" "Update_target config s2 = Inr s'"
    by blast
  then show ?thesis
    by (auto dest!: Update_critics_frame Update_actor_frame Update_target_frame)
qed

lemma Episode_interact_Inr:
  assumes "Episode_interact ifc config s = Inr (reward, s4)"
  shows "\<exists>s1 nextState env.
           SelectAction ifc s = Inr s1 \<and>
           env_Sample ifc (environment s) (state s) (action s1) = ((reward, nextState), env) \<and>
           s4 = s1\<lparr>environment := env, totalSteps := totalSteps s + 1,
                   replayMethod :=
                     replay_Store ifc
                       \<lparr> tr_state = state s, tr_action = action s1, tr_reward = reward,
                         tr_nextState = nextState,
                         tr_isEnd = env_IsTerminal ifc env nextState,
                         tr_discount = Discount config \<rparr>
                       (replayMethod s),
                   state := nextState\<rparr>"
proof -
  from assms obtain s1 where s1: "SelectAction ifc s = Inr s1"
    by (auto simp: Episode_interact_def ebind_eq_Inr)
  from SelectAction_frame[OF s1] obtain a g where f: "s1 = s\<lparr>action := a, rng := g\<rparr>" by blast
  show ?thesis using assms s1 f
    by (auto simp: Episode_interact_def Let_def split: prod.splits)
qed

lemma sample_gradient_Inr:
  assumes "sample_gradient ifc s states piv Q1 Q2 i = Inr g"
  shows "\<exists>a critic gradQ.
           colvec_of (policy_Forward ifc (policyNetwork s) [states ! i]) = Inr a \<and>
           i < length Q1 \<and> i < length Q2 \<and>
           critic = (if Q1 ! i < Q2 ! i then learningQ1Network s else learningQ2Network s) \<and>
           gradQ = q_Backward ifc critic [a @ states ! i]
                     (mat_neg (q_Forward ifc critic [a @ states ! i])) \<and>
           0 < length a \<and> length a \<le> n_rows gradQ \<and>
           g = policy_Backward ifc (policyNetwork s) [states ! i] (map (take (length a)) gradQ)"
  using assms
  by (auto simp: sample_gradient_def ebind_eq_Inr Let_def split: if_splits dest!: rows_upto_Inr)

lemma Update_nextQ_replay [simp]:
  "Update_nextQ ifc config (s\<lparr>replayMethod := rp\<rparr>) b = Update_nextQ ifc config s b"
  by (simp add: Update_nextQ_def)

lemma Update_nextQ_Inr:
  assumes "Update_nextQ ifc config s b = Inr nextQ"
  shows "\<exists>targetQInput Q1 Q2.
           join_vert (policy_Predict ifc (policyNetwork s) (sampledNextStates b))
             (sampledNextStates b) = Inr targetQInput \<and>
           rowvec_of (q_Predict ifc (targetQ1Network s) targetQInput) = Inr Q1 \<and>
           rowvec_of (q_Predict ifc (targetQ2Network s) targetQInput) = Inr Q2 \<and>
           length nextQ = length (sampledRewards b) \<and>
           (\<forall>i < length nextQ.
              nextQ ! i =
                sampledRewards b ! i +
                real_of_int (sword_of_double (Discount config) * (1 - isTerminal b ! i)) *
                  min (Q1 ! i) (Q2 ! i))"
proof -
  from assms obtain targetQInput Q1 Q2 minQ bootstrap where
    j: "join_vert (policy_Predict ifc (policyNetwork s) (sampledNextStates b))
             (sampledNextStates b) = Inr targetQInput"
    and q1: "rowvec_of (q_Predict ifc (targetQ1Network s) targetQInput) = Inr Q1"
    and q2: "rowvec_of (q_Predict ifc (targetQ2Network s) targetQInput) = Inr Q2"
    and m: "arma_min Q1 Q2 = Inr minQ"
    and p: "schur_mixed (scalar_times (sword_of_double (Discount config))
                  (scalar_minus_pre 1 (isTerminal b))) minQ = Inr bootstrap"
    and a: "vec_add (sampledRewards b) bootstrap = Inr nextQ"
    by (auto simp: Update_nextQ_def ebind_eq_Inr Let_def)
  from arma_min_Inr[OF m] schur_mixed_Inr[OF p] vec_add_Inr[OF a]
  have "length nextQ = length (sampledRewards b) \<and>
           (\<forall>i < length nextQ.
              nextQ ! i =
                sampledRewards b ! i +
                real_of_int (sword_of_double (Discount config) * (1 - isTerminal b ! i)) *
                  min (Q1 ! i) (Q2 ! i))"
    by (auto simp: scalar_times_def scalar_minus_pre_def)
  with j q1 q2 show ?thesis by blast
qed

lemma Update_critics_Inr:
  assumes "Update_critics ifc config s b nextQ = Inr s'"
  shows "\<exists>vals input Q1 Q2.
           action_values (action_size ifc) (sampledActions b) = Inr vals \<and>
           join_vert vals (sampledStates b) = Inr input \<and>
           rowvec_of (q_Forward ifc (learningQ1Network s) input) = Inr Q1 \<and>
           rowvec_of (q_Forward ifc (learningQ2Network s) input) = Inr Q2 \<and>
           (let step1 = updater_Update ifc (qNetworkUpdater s) (learningQ1Network s)
                          (StepSize config)
                          (q_Backward ifc (learningQ1Network s) input (loss_Backward ifc Q1 nextQ));
                step2 = updater_Update ifc (snd step1) (learningQ2Network s)
                          (StepSize config)
                          (q_Backward ifc (learningQ2Network s) input (loss_Backward ifc Q2 nextQ))
            in s' = s\<lparr>learningQ1Network := fst step1, learningQ2Network := fst step2,
                       qNetworkUpdater := snd step2\<rparr>)"
  using assms
  by (auto simp: Update_critics_def ebind_eq_Inr Let_def split_beta)

lemma Update_actor_Inr:
  assumes "Update_actor ifc config s b = Inr s'"
  shows "\<exists>piv qInput Q1 Q2 gradient.
           rowvec_of (policy_Predict ifc (policyNetwork s) (sampledStates b)) = Inr piv \<and>
           join_vert (mat_of_rowvec piv) (sampledStates b) = Inr qInput \<and>
           rowvec_of (q_Predict ifc (learningQ1Network s) qInput) = Inr Q1 \<and>
           rowvec_of (q_Predict ifc (learningQ2Network s) qInput) = Inr Q2 \<and>
           gradient_loop ifc s (sampledStates b) piv Q1 Q2
              [0 ..< n_cols (sampledStates b)] [] = Inr gradient \<and>
           s' = s\<lparr>policyNetwork :=
                    fst (updater_Update ifc (policyNetworkUpdater s) (policyNetwork s)
                           (StepSize config) gradient),
                  policyNetworkUpdater :=
                    snd (updater_Update ifc (policyNetworkUpdater s) (policyNetwork s)
                           (StepSize config) gradient)\<rparr>"
  using assms
  by (auto simp: Update_actor_def ebind_eq_Inr Let_def split_beta)

lemma gradient_loop_sum:
  "gradient_loop ifc s states piv Q1 Q2 idx acc = Inr G \<Longrightarrow> 0 \<notin> set idx \<Longrightarrow>
   \<exists>gs. length gs = length idx \<and>
        (\<forall>j < length idx. sample_gradient ifc s states piv Q1 Q2 (idx ! j) = Inr (gs ! j)) \<and>
        same_size G acc \<and> (\<forall>j < length idx. same_size (gs ! j) acc) \<and>
        (\<forall>c r. c < length G \<longrightarrow> r < length (G ! c) \<longrightarrow>
           G ! c ! r = acc ! c ! r + (\<Sum>j < length idx. gs ! j ! c ! r))"
proof (induction idx arbitrary: acc)
  case Nil
  then show ?case by (simp add: same_size_refl)
next
  case (Cons i idx)
  from Cons.prems obtain g acc' where g: "sample_gradient ifc s states piv Q1 Q2 i = Inr g"
    and a: "mat_add acc g = Inr acc'"
    and l: "gradient_loop ifc s states piv Q1 Q2 idx acc' = Inr G"
    by (auto simp: ebind_eq_Inr)
  from a have ss: "same_size acc g" and acc': "acc' = map2 (map2 (+)) acc g"
    by (auto dest: mat_add_Inr)
  from Cons.IH[OF l] Cons.prems(2) obtain gs where gs: "length gs = length idx"
    "\<forall>j < length idx. sample_gradient ifc s states piv Q1 Q2 (idx ! j) = Inr (gs ! j)"
    "same_size G acc'"
    "\<forall>c r. c < length G \<longrightarrow> r < length (G ! c) \<longrightarrow>
           G ! c ! r = acc' ! c ! r + (\<Sum>j < length idx. gs ! j ! c ! r)"
    "\<forall>j < length idx. same_size (gs ! j) acc'"
    by auto
  have s1: "same_size acc' acc" using ss acc' by (simp add: same_size_map2)
  with gs(3) have s2: "same_size G acc" by (rule same_size_trans)
  have "\<forall>j < length (i # idx). sample_gradient ifc s states piv Q1 Q2 ((i # idx) ! j) = Inr ((g # gs) ! j)"
    using g gs(2) by (auto simp: nth_Cons split: nat.splits)
  moreover have "G ! c ! r = acc ! c ! r + (\<Sum>j < length (i # idx). (g # gs) ! j ! c ! r)"
    if c: "c < length G" and r: "r < length (G ! c)" for c r
  proof -
    from same_size_nth[OF s2] c r have "c < length acc" "r < length (acc ! c)" by auto
    with ss acc' have "acc' ! c ! r = acc ! c ! r + g ! c ! r"
      by (simp add: map2_nth)
    moreover from gs(4) c r have "G ! c ! r = acc' ! c ! r + (\<Sum>j < length idx. gs ! j ! c ! r)"
      by simp
    moreover have "(\<Sum>j < length (i # idx). (g # gs) ! j ! c ! r) =
        g ! c ! r + (\<Sum>j < length idx. gs ! j ! c ! r)"
      unfolding length_Cons sum.lessThan_Suc_shift by simp
    ultimately show ?thesis by simp
  qed
  moreover have "\<forall>j < length (i # idx). same_size ((g # gs) ! j) acc"
    using gs(5) s1 ss by (auto simp: nth_Cons intro: same_size_trans same_size_sym split: nat.splits)
  ultimately show ?case using gs(1) s2
    by (intro exI[of _ "g # gs"]) simp
qed

lemma gradient_loop_all:
  assumes "gradient_loop ifc s states piv Q1 Q2 [0 ..< n] [] = Inr G"
  shows "\<exists>gs. length gs = n \<and>
        (\<forall>i < n. sample_gradient ifc s states piv Q1 Q2 i = Inr (gs ! i)) \<and>
        (\<forall>i < n. same_size (gs ! i) G) \<and> (n = 0 \<longrightarrow> G = []) \<and>
        (\<forall>c r. c < length G \<longrightarrow> r < length (G ! c) \<longrightarrow>
           G ! c ! r = (\<Sum>i < n. gs ! i ! c ! r))"
proof (cases n)
  case 0
  with assms show ?thesis by simp
next
  case (Suc m)
  then have idx: "[0 ..< n] = 0 # [1 ..< Suc m]" by (simp add: upt_rec)
  from assms obtain g where g: "sample_gradient ifc s states piv Q1 Q2 0 = Inr g"
    and l: "gradient_loop ifc s states piv Q1 Q2 [1 ..< Suc m] g = Inr G"
    unfolding idx by (auto simp: ebind_eq_Inr mat_add_zeros)
  have len: "length [1 ..< Suc m] = m" by simp
  have nth: "[1 ..< Suc m] ! j = Suc j" if "j < m" for j
    using that by (simp del: upt_Suc)
  have "0 \<notin> set [1 ..< Suc m]" by (simp del: upt_Suc)
  from gradient_loop_sum[OF l this] obtain gs where
    "length gs = length [1 ..< Suc m]"
    "\<forall>j < length [1 ..< Suc m].
       sample_gradient ifc s states piv Q1 Q2 ([1 ..< Suc m] ! j) = Inr (gs ! j)"
    "\<forall>c r. c < length G \<longrightarrow> r < length (G ! c) \<longrightarrow>
           G ! c ! r = g ! c ! r + (\<Sum>j < length [1 ..< Suc m]. gs ! j ! c ! r)"
    "same_size G g" "\<forall>j < length [1 ..< Suc m]. same_size (gs ! j) g"
    by blast
  then have gs: "length gs = m"
    "\<forall>j < m. sample_gradient ifc s states piv Q1 Q2 (Suc j) = Inr (gs ! j)"
    "\<forall>c r. c < length G \<longrightarrow> r < length (G ! c) \<longrightarrow>
           G ! c ! r = g ! c ! r + (\<Sum>j < m. gs ! j ! c ! r)"
    "same_size G g" "\<forall>j < m. same_size (gs ! j) g"
    unfolding len using nth by simp_all
  have "\<forall>i < n. sample_gradient ifc s states piv Q1 Q2 i = Inr ((g # gs) ! i)"
    using g gs(2) Suc by (auto simp: nth_Cons split: nat.splits)
  moreover have "\<forall>c r. c < length G \<longrightarrow> r < length (G ! c) \<longrightarrow>
           G ! c ! r = (\<Sum>i < n. (g # gs) ! i ! c ! r)"
    using gs(3) unfolding Suc sum.lessThan_Suc_shift by simp
  moreover have "\<forall>i < n. same_size ((g # gs) ! i) G"
    using gs(4,5) Suc
    by (auto simp: nth_Cons intro: same_size_trans same_size_sym split: nat.splits)
  ultimately show ?thesis using gs(1) Suc
    by (intro exI[of _ "g # gs"]) simp
qed

lemma Update_targets:
  assumes "Update ifc config s = Inr s'"
  shows "\<exists>s2. targetQ1Network s2 = targetQ1Network s \<and>
              targetQ2Network s2 = targetQ2Network s \<and>
              totalSteps s2 = totalSteps s \<and>
              Update_target config s2 = Inr s'"
proof -
  from Update_Inr[OF assms] obtain b rp nextQ s1 s2 where
    c: "Update_critics ifc config (s\<lparr>replayMethod := rp\<rparr>) b nextQ = Inr s1"
    and a: "Update_actor ifc config s1 b = Inr s2" and t: "Update_target config s2 = Inr s'"
    by blast
  from Update_critics_frame[OF c] Update_actor_frame[OF a]
  have "targetQ1Network s2 = targetQ1Network s \<and> targetQ2Network s2 = targetQ2Network s
        \<and> totalSteps s2 = totalSteps s" by auto
  with t show ?thesis by blast
qed

lemma Update_no_sync:
  assumes "Update ifc config s = Inr s'"
      and "\<not> unat (TargetNetworkSyncInterval config) dvd unat (totalSteps s)"
  shows "targetQ1Network s' = targetQ1Network s \<and> targetQ2Network s' = targetQ2Network s"
proof -
  from Update_targets[OF assms(1)] obtain s2 where
    "targetQ1Network s2 = targetQ1Network s" "targetQ2Network s2 = targetQ2Network s"
    "totalSteps s2 = totalSteps s" "Update_target config s2 = Inr s'" by blast
  with assms(2) show ?thesis
    by (auto simp: Update_target_def word_mod_eq_0_iff split: if_splits)
qed

lemma Updates_at_no_sync:
  "Updates_at ifc config cs s = Inr s' \<Longrightarrow>
   \<forall>c \<in> set cs. \<not> unat (TargetNetworkSyncInterval config) dvd unat c \<Longrightarrow>
   targetQ1Network s' = targetQ1Network s \<and> targetQ2Network s' = targetQ2Network s"
proof (induction cs arbitrary: s)
  case Nil
  then show ?case by simp
next
  case (Cons c cs)
  from Cons.prems(1) obtain s1 where u: "Update ifc config (s\<lparr>totalSteps := c\<rparr>) = Inr s1"
    and r: "Updates_at ifc config cs s1 = Inr s'"
    by (auto simp: ebind_eq_Inr)
  from Update_no_sync[OF u] Cons.prems(2)
  have "targetQ1Network s1 = targetQ1Network s \<and> targetQ2Network s1 = targetQ2Network s"
    by simp
  with Cons.IH[OF r] Cons.prems(2) show ?case by simp
qed

lemma Episode_body_totalSteps:
  assumes "Episode_body ifc config s = Inr (r, s')"
  shows "totalSteps s' = totalSteps s + 1"
proof -
  from assms obtain s4 where i: "Episode_interact ifc config s = Inr (r, s4)"
    and u: "s' = s4 \<or> Update ifc config s4 = Inr s'"
    by (auto simp: Episode_body_def ebind_eq_Inr split: if_splits)
  from Episode_interact_Inr[OF i] have "totalSteps s4 = totalSteps s + 1" by auto
  with u Update_frame show ?thesis by metis
qed

lemma Episode_steps_length:
  "Episode_steps ifc config n s = Inr (rs, s') \<Longrightarrow>
   length rs = n \<and> totalSteps s' = totalSteps s + of_nat n"
proof (induction n arbitrary: s rs)
  case 0
  then show ?case by simp
next
  case (Suc n)
  from Suc.prems obtain r s1 rs1 where b: "Episode_body ifc config s = Inr (r, s1)"
    and st: "Episode_steps ifc config n s1 = Inr (rs1, s')" and rs: "rs = r # rs1"
    by (auto simp: ebind_eq_Inr)
  from Suc.IH[OF st] Episode_body_totalSteps[OF b] rs show ?case by simp
qed

lemma Episode_loop_runs:
  assumes nt: "\<And>e st. \<not> env_IsTerminal ifc e st" and l: "StepLimit config \<noteq> 0"
  shows "unat steps + n = unat (StepLimit config) \<Longrightarrow>
         Episode_steps ifc config n s = Inr (rs, s') \<Longrightarrow>
         Episode_loop ifc config steps totalReturn s = Some (Inr (totalReturn + sum_list rs, s'))"
proof (induction n arbitrary: steps totalReturn s rs)
  case 0
  then have "StepLimit config \<le> steps" by (simp add: word_le_nat_alt)
  with 0 l nt show ?case by (subst Episode_loop.simps) simp
next
  case (Suc n)
  from Suc.prems(2) obtain r s1 rs1 where b: "Episode_body ifc config s = Inr (r, s1)"
    and st: "Episode_steps ifc config n s1 = Inr (rs1, s')" and rs: "rs = r # rs1"
    by (auto simp: ebind_eq_Inr)
  from Suc.prems(1) have lt: "steps < StepLimit config" by (simp add: word_less_nat_alt)
  then have nle: "\<not> StepLimit config \<le> steps" by simp
  have "unat steps + unat (1 :: size_t) < 2 ^ LENGTH(64)"
    using unsigned_less[of "StepLimit config", where 'a = nat] lt by (simp add: word_less_nat_alt)
  then have "unat (steps + 1) = unat steps + 1"
    by (simp add: unat_add_lem[THEN iffD1])
  with Suc.prems(1) have "unat (steps + 1) + n = unat (StepLimit config)" by simp
  from Suc.IH[OF this st] have
    "Episode_loop ifc config (steps + 1) (totalReturn + r) s1 = Some (Inr (totalReturn + r + sum_list rs1, s'))" .
  with nt nle b rs show ?case by (subst Episode_loop.simps) (simp add: add.assoc)
qed

lemma Episode_loop_unlimited_aux:
  assumes "Episode_loop ifc config steps totalReturn s = Some y"
  shows "StepLimit config = 0 \<longrightarrow>
     (\<forall>ret s'. y = Inr (ret, s') \<longrightarrow> env_IsTerminal ifc (environment s') (state s'))"
proof (rule Episode_loop.raw_induct
    [where P = "\<lambda>ifc config steps totalReturn s y. StepLimit config = 0 \<longrightarrow>
     (\<forall>ret s'. y = Inr (ret, s') \<longrightarrow> env_IsTerminal ifc (environment s') (state s'))",
     OF _ assms])
  fix f :: "('a, 'b, 'c, 'd, 'e) collaborators \<Rightarrow> TrainingConfig \<Rightarrow> size_t \<Rightarrow> real
     \<Rightarrow> ('a, 'b, 'c, 'd, 'e) agent
     \<Rightarrow> (error + (real \<times> ('a, 'b, 'c, 'd, 'e) agent)) option"
    and ifc config steps totalReturn s y
  assume IH: "\<And>ifc config steps totalReturn s y.
        f ifc config steps totalReturn s = Some y \<Longrightarrow>
        StepLimit config = 0 \<longrightarrow>
     (\<forall>ret s'. y = Inr (ret, s') \<longrightarrow> env_IsTerminal ifc (environment s') (state s'))"
    and "(if env_IsTerminal ifc (environment s) (state s)
      then Some (Inr (totalReturn, s))
      else if StepLimit config \<noteq> 0 \<and> StepLimit config \<le> steps
           then Some (Inr (totalReturn, s))
           else case Episode_body ifc config s of Inl e \<Rightarrow> Some (Inl e)
                | Inr (reward, s') \<Rightarrow>
                    f ifc config (steps + 1)
                     (totalReturn + reward) s') = Some y"
  then show "StepLimit config = 0 \<longrightarrow>
     (\<forall>ret s'. y = Inr (ret, s') \<longrightarrow> env_IsTerminal ifc (environment s') (state s'))"
    by (auto split: if_splits sum.splits prod.splits)
qed

subsection \<open>The instance, evaluated\<close>

lemmas demo_defs = demo_ifc_def demo_config_def demo_agent_def demo_batch_def
  demo_stepped_def demo_learned_def demo_ifc_terminal_def demo_config_unlimited_def
  demo_config_discounted_def
lemmas arma_defs = join_vert_def rowvec_of_def colvec_of_def rows_upto_def n_rows_def n_cols_def
  arma_min_def schur_mixed_def vec_add_def sword_of_double_def scalar_times_def scalar_minus_pre_def
  mat_add_def same_size_def zeros_like_def mat_neg_def mat_of_rowvec_def mat_scale_def clamp_def
  action_values_def
lemmas Update_defs = Update_def Update_nextQ_def Update_critics_def Update_actor_def
  Update_target_def sample_gradient_def SoftUpdate_def
lemmas body_defs = Episode_body_def Episode_interact_def SelectAction_def
lemmas word_cmp = word_le_nat_alt word_less_nat_alt
lemmas lin_defs = dot_def lin_Forward_def lin_Backward_def lin_input_gradient_def lin_batch_def
  lin_ifc_def lin_agent_def

lemma Episode_steps_2:
  "Episode_steps ifc config 2 s =
     ebind (Episode_body ifc config s) (\<lambda>(r1, s1).
     ebind (Episode_body ifc config s1) (\<lambda>(r2, s2). Inr ([r1, r2], s2)))"
proof -
  have "Episode_steps ifc config (Suc (Suc 0)) s =
     ebind (Episode_body ifc config s) (\<lambda>(r1, s1).
     ebind (Episode_body ifc config s1) (\<lambda>(r2, s2). Inr ([r1, r2], s2)))"
    by (cases "Episode_body ifc config s")
       (auto simp: split_beta ebind_def split: sum.splits)
  then show ?thesis by (simp only: numeral_2_eq_2)
qed

lemma demo_Update:
  "Update demo_ifc demo_config demo_agent =
     Inr (demo_agent\<lparr>learningQ1Network := [[3 / 2]], learningQ2Network := [[3 / 2]],
                     policyNetwork := [[23 / 4]], qNetworkUpdater := 3,
                     policyNetworkUpdater := - (3 / 2)\<rparr>)"
  by (simp add: demo_defs arma_defs Update_defs)

lemma demo_Update_other_critic1:
  "Update demo_ifc demo_config (demo_agent\<lparr>learningQ1Network := [[4]]\<rparr>) =
     Inr (demo_agent\<lparr>learningQ1Network := [[5 / 2]], learningQ2Network := [[1 / 2]],
                     policyNetwork := [[21 / 4]], qNetworkUpdater := 5,
                     policyNetworkUpdater := - (1 / 2)\<rparr>)"
  by (simp add: demo_defs arma_defs Update_defs)

lemma demo_interact:
  "Episode_interact demo_ifc demo_config demo_agent = Inr (2, demo_stepped)"
  by (simp add: body_defs demo_defs arma_defs)

lemma demo_Update_stepped: "Update demo_ifc demo_config demo_stepped = Inr demo_learned"
  by (simp add: demo_defs arma_defs Update_defs)

lemma demo_body: "Episode_body demo_ifc demo_config demo_agent = Inr (2, demo_learned)"
  using demo_interact demo_Update_stepped
  by (simp add: Episode_body_def) (simp add: demo_defs word_cmp)

subsection \<open>The regression target\<close>

text \<open>
  What lines 160 to 170 compute is stated by \<open>Update_nextQ_Inr\<close> above. Let \<open>Q1\<close> and
  \<open>Q2\<close> be the two target critics' predictions on the policy's prediction for the next
  states stacked on the next states. Entry \<open>i\<close> of \<^verbatim>\<open>nextQ\<close> is
  \<open>reward\<^sub>i + k * (1 - isTerminal\<^sub>i) * min Q1\<^sub>i Q2\<^sub>i\<close>, where \<open>k\<close> is the discount
  converted to an integer. For a discount of at least 0 and below 1 the target is the
  reward alone.
\<close>

lemma Update_nextQ_fractional_discount:
  assumes "Update_nextQ ifc config s b = Inr nextQ"
      and "0 \<le> Discount config" and "Discount config < 1"
  shows "nextQ = sampledRewards b"
proof -
  from assms(2,3) have "sword_of_double (Discount config) = 0"
    by (simp add: sword_of_double_def floor_eq_iff)
  with Update_nextQ_Inr[OF assms(1)] show ?thesis
    by (auto intro: nth_equalityI)
qed

text \<open>
  C1. The claim is that the factor is the discount itself. In the instance: discount
  0.99, one sampled transition with reward 0 that is not terminal, target critics
  predicting 1 and 4. The claimed target is \<open>0 + 0.99 * (1 - 0) * min 1 4 = 0.99\<close>;
  the code computes 0, and the learning update moves critic 1, which predicts 2, with
  step size 0.5 to \<open>2 - 0.5 * (2 - 0)\<close>.
\<close>

theorem Update_nextQ_truncates_discount:
  "Update_nextQ demo_ifc demo_config_discounted demo_agent demo_batch = Inr [0] \<and>
   sampledRewards demo_batch ! 0 +
     Discount demo_config_discounted * (1 - real_of_int (isTerminal demo_batch ! 0)) * min 1 4 =
     99 / 100 \<and>
   map_sum id learningQ1Network (Update demo_ifc demo_config_discounted demo_agent) =
     Inr [[2 - 1 / 2 * (2 - 0)]]"
  by (simp add: demo_defs arma_defs Update_defs)

subsection \<open>Soft update\<close>

text \<open>
  C2. For every \<open>rho\<close>, when each target matrix has the size of its learning critic's,
  \<open>SoftUpdate rho\<close> returns the agent in which every entry of target 1 is
  \<open>(1 - rho) * t + rho * l\<close>, with \<open>t\<close> the old entry of target 1 and \<open>l\<close> the entry
  of learning critic 1 at the same place, and likewise for target 2 from learning
  critic 2; nothing else changes. The instance after it is the scalar case of the spec:
  \<open>rho = 0.005\<close>, target 1 and learning 2 give 1.005.
\<close>

theorem SoftUpdate_interpolates:
  assumes "same_size (targetQ1Network s) (learningQ1Network s)"
      and "same_size (targetQ2Network s) (learningQ2Network s)"
  shows "SoftUpdate rho s =
           Inr (s\<lparr>targetQ1Network :=
                    map2 (map2 (\<lambda>t l. (1 - rho) * t + rho * l))
                      (targetQ1Network s) (learningQ1Network s),
                  targetQ2Network :=
                    map2 (map2 (\<lambda>t l. (1 - rho) * t + rho * l))
                      (targetQ2Network s) (learningQ2Network s)\<rparr>)"
  using assms by (simp add: SoftUpdate_def mat_add_scaled Let_def)

theorem SoftUpdate_interpolates_witness:
  "same_size [[1]] [[2]] \<and> same_size [[4]] [[3]] \<and>
   SoftUpdate (5 / 1000) demo_agent =
     Inr (demo_agent\<lparr>targetQ1Network := [[1005 / 1000]], targetQ2Network := [[3995 / 1000]]\<rparr>)"
  using SoftUpdate_interpolates [of demo_agent "5 / 1000"]
  by (simp add: demo_agent_def same_size_def)

subsection \<open>The twin critics\<close>

text \<open>
  C3, as amended. The constructor makes critic 2 from a copy of critic 1 by a fresh
  parameter reset: its parameters are what \<^verbatim>\<open>ResetParameters\<close> returns for that copy,
  so that they differ from critic 1's whenever the reset returns other parameters than
  critic 1's. In a learning update, critic 1's new parameters are the optimizer's step from critic 1's
  old parameters along critic 1's gradient, and critic 2's new parameters are the
  optimizer's step from critic 2's old parameters along critic 2's gradient: neither
  step writes the other critic's parameters. Both steps are taken by the one optimizer
  \<^verbatim>\<open>qNetworkUpdater\<close>: critic 2's step starts from the optimizer state that critic 1's
  step left.
\<close>

theorem critics_share_one_optimizer:
  "learningQ2Network (SAC ifc q1 pol rp qu pu env g st0 a0) =
     fst (q_ResetParameters ifc (learningQ1Network (SAC ifc q1 pol rp qu pu env g st0 a0))
            (if is_empty q1 then snd (q_ResetParameters ifc q1 g) else g)) \<and>
   (fst (q_ResetParameters ifc (learningQ1Network (SAC ifc q1 pol rp qu pu env g st0 a0))
           (if is_empty q1 then snd (q_ResetParameters ifc q1 g) else g)) \<noteq>
      learningQ1Network (SAC ifc q1 pol rp qu pu env g st0 a0) \<longrightarrow>
    learningQ2Network (SAC ifc q1 pol rp qu pu env g st0 a0) \<noteq>
      learningQ1Network (SAC ifc q1 pol rp qu pu env g st0 a0)) \<and>
   (Update ifc config s = Inr s' \<longrightarrow>
      (\<exists>b nextQ vals input Q1 Q2.
         b = fst (replay_Sample ifc (replayMethod s)) \<and>
         Update_nextQ ifc config s b = Inr nextQ \<and>
         action_values (action_size ifc) (sampledActions b) = Inr vals \<and>
         join_vert vals (sampledStates b) = Inr input \<and>
         rowvec_of (q_Forward ifc (learningQ1Network s) input) = Inr Q1 \<and>
         rowvec_of (q_Forward ifc (learningQ2Network s) input) = Inr Q2 \<and>
         (let step1 = updater_Update ifc (qNetworkUpdater s) (learningQ1Network s)
                        (StepSize config)
                        (q_Backward ifc (learningQ1Network s) input (loss_Backward ifc Q1 nextQ));
              step2 = updater_Update ifc (snd step1) (learningQ2Network s)
                        (StepSize config)
                        (q_Backward ifc (learningQ2Network s) input (loss_Backward ifc Q2 nextQ))
          in learningQ1Network s' = fst step1 \<and> learningQ2Network s' = fst step2 \<and>
             qNetworkUpdater s' = snd step2)))"
proof (intro conjI impI)
  show r: "learningQ2Network (SAC ifc q1 pol rp qu pu env g st0 a0) =
     fst (q_ResetParameters ifc (learningQ1Network (SAC ifc q1 pol rp qu pu env g st0 a0))
            (if is_empty q1 then snd (q_ResetParameters ifc q1 g) else g))"
    by (simp add: SAC_def Let_def split_beta)
  assume "fst (q_ResetParameters ifc (learningQ1Network (SAC ifc q1 pol rp qu pu env g st0 a0))
           (if is_empty q1 then snd (q_ResetParameters ifc q1 g) else g)) \<noteq>
      learningQ1Network (SAC ifc q1 pol rp qu pu env g st0 a0)"
  with r show "learningQ2Network (SAC ifc q1 pol rp qu pu env g st0 a0) \<noteq>
      learningQ1Network (SAC ifc q1 pol rp qu pu env g st0 a0)"
    by simp
next
  assume "Update ifc config s = Inr s'"
  from Update_Inr[OF this] obtain b rp nextQ s1 s2 where
    sm: "replay_Sample ifc (replayMethod s) = (b, rp)"
    and n: "Update_nextQ ifc config s b = Inr nextQ"
    and c: "Update_critics ifc config (s\<lparr>replayMethod := rp\<rparr>) b nextQ = Inr s1"
    and a: "Update_actor ifc config s1 b = Inr s2"
    and t: "Update_target config s2 = Inr s'"
    by auto
  from Update_actor_frame[OF a] Update_target_frame[OF t]
  have f: "learningQ1Network s' = learningQ1Network s1"
    "learningQ2Network s' = learningQ2Network s1" "qNetworkUpdater s' = qNetworkUpdater s1"
    by auto
  from Update_critics_Inr[OF c] sm n f
  show "\<exists>b nextQ vals input Q1 Q2.
         b = fst (replay_Sample ifc (replayMethod s)) \<and>
         Update_nextQ ifc config s b = Inr nextQ \<and>
         action_values (action_size ifc) (sampledActions b) = Inr vals \<and>
         join_vert vals (sampledStates b) = Inr input \<and>
         rowvec_of (q_Forward ifc (learningQ1Network s) input) = Inr Q1 \<and>
         rowvec_of (q_Forward ifc (learningQ2Network s) input) = Inr Q2 \<and>
         (let step1 = updater_Update ifc (qNetworkUpdater s) (learningQ1Network s)
                        (StepSize config)
                        (q_Backward ifc (learningQ1Network s) input (loss_Backward ifc Q1 nextQ));
              step2 = updater_Update ifc (snd step1) (learningQ2Network s)
                        (StepSize config)
                        (q_Backward ifc (learningQ2Network s) input (loss_Backward ifc Q2 nextQ))
          in learningQ1Network s' = fst step1 \<and> learningQ2Network s' = fst step2 \<and>
             qNetworkUpdater s' = snd step2)"
    by (auto simp: Let_def)
qed

theorem critics_share_one_optimizer_witness:
  "fst (q_ResetParameters demo_ifc [[2]] 0) \<noteq> [[2]] \<and>
   learningQ2Network (SAC demo_ifc [[2]] [[5]] [] 0 0 () 0 0 [0]) \<noteq>
     learningQ1Network (SAC demo_ifc [[2]] [[5]] [] 0 0 () 0 0 [0]) \<and>
   Update demo_ifc demo_config demo_stepped = Inr demo_learned \<and>
   learningQ1Network demo_learned =
     fst (updater_Update demo_ifc 0 [[2]] (1 / 2) [[1]]) \<and>
   learningQ2Network demo_learned =
     fst (updater_Update demo_ifc (snd (updater_Update demo_ifc 0 [[2]] (1 / 2) [[1]]))
            [[3]] (1 / 2) [[2]])"
  using critics_share_one_optimizer
          [of demo_ifc "[[2]]" "[[5]]" "[]" 0 0 "()" 0 0 "[0]" demo_config demo_stepped demo_learned]
        demo_Update_stepped
  by (simp add: demo_defs SAC_def is_empty_def)

text \<open>
  C3 as stated fails in two places. First, the reset need not change the parameters:
  with a network whose reset takes its parameters from the generator's state, here the
  number 0, and a critic 1 that already holds 0, the constructor leaves critic 2 with
  the parameters of critic 1. Second, the two critics do not have optimizers of their
  own. Two agents that differ only in critic 1's parameters (2 and 4) end a learning
  update with different parameters of critic 2 (1.5 and 0.5), because critic 2's step
  starts from the momentum critic 1's step left. An optimizer of critic 2's own,
  starting from the state the agent holds, would step critic 2 from 3 to 2 in both.
\<close>

theorem critics_independent_optimizers_counterexample:
  "learningQ2Network (SAC demo_ifc [[0]] [[5]] [] 0 0 () 0 0 [0]) =
     learningQ1Network (SAC demo_ifc [[0]] [[5]] [] 0 0 () 0 0 [0]) \<and>
   map_sum id learningQ2Network (Update demo_ifc demo_config demo_agent) = Inr [[3 / 2]] \<and>
   map_sum id learningQ2Network
     (Update demo_ifc demo_config (demo_agent\<lparr>learningQ1Network := [[4]]\<rparr>)) = Inr [[1 / 2]] \<and>
   fst (updater_Update demo_ifc (qNetworkUpdater demo_agent) (learningQ2Network demo_agent)
          (StepSize demo_config) [[3 - 1]]) = [[2]]"
  by (simp add: demo_Update demo_Update_other_critic1)
     (simp add: demo_defs SAC_def is_empty_def)

subsection \<open>Target isolation\<close>

text \<open>
  C4. A learning update that returns leaves the agent, after the critic and actor
  steps, in a state whose target parameters are still those before the update; then,
  if the lifetime step counter is a multiple of the synchronization interval, it runs
  \<open>SoftUpdate\<close> with rate 0.005 on that state, and otherwise does nothing more. So
  any number of learning updates at counter values that are not multiples of the
  interval leave both targets' parameters unchanged.
\<close>

theorem targets_change_only_by_SoftUpdate:
  "(Update ifc config s = Inr s' \<longrightarrow>
      (\<exists>s2. targetQ1Network s2 = targetQ1Network s \<and>
            targetQ2Network s2 = targetQ2Network s \<and>
            (if unat (TargetNetworkSyncInterval config) dvd unat (totalSteps s)
             then SoftUpdate (5 / 1000) s2 = Inr s'
             else s' = s2))) \<and>
   (Updates_at ifc config cs t = Inr t' \<and>
    (\<forall>c \<in> set cs. \<not> unat (TargetNetworkSyncInterval config) dvd unat c) \<longrightarrow>
      targetQ1Network t' = targetQ1Network t \<and> targetQ2Network t' = targetQ2Network t)"
proof (intro conjI impI)
  assume "Update ifc config s = Inr s'"
  from Update_targets[OF this] obtain s2 where
    "targetQ1Network s2 = targetQ1Network s" "targetQ2Network s2 = targetQ2Network s"
    "totalSteps s2 = totalSteps s" "Update_target config s2 = Inr s'" by blast
  then show "\<exists>s2. targetQ1Network s2 = targetQ1Network s \<and>
            targetQ2Network s2 = targetQ2Network s \<and>
            (if unat (TargetNetworkSyncInterval config) dvd unat (totalSteps s)
             then SoftUpdate (5 / 1000) s2 = Inr s'
             else s' = s2)"
    by (intro exI[of _ s2]) (auto simp: Update_target_def word_mod_eq_0_iff split: if_splits)
next
  assume "Updates_at ifc config cs t = Inr t' \<and>
    (\<forall>c \<in> set cs. \<not> unat (TargetNetworkSyncInterval config) dvd unat c)"
  then show "targetQ1Network t' = targetQ1Network t" "targetQ2Network t' = targetQ2Network t"
    using Updates_at_no_sync by blast+
qed

theorem targets_change_only_by_SoftUpdate_witness:
  "Update demo_ifc demo_config demo_stepped = Inr demo_learned \<and>
   unat (TargetNetworkSyncInterval demo_config) dvd unat (totalSteps demo_stepped) \<and>
   targetQ1Network demo_learned = [[(1 - 5 / 1000) * 1 + 5 / 1000 * (3 / 2)]] \<and>
   (\<exists>t'. Updates_at demo_ifc demo_config [1, 3] demo_agent = Inr t' \<and>
         targetQ1Network t' = [[1]] \<and> targetQ2Network t' = [[4]])"
proof -
  have "\<exists>t'. Updates_at demo_ifc demo_config [1, 3] demo_agent = Inr t'"
    by (simp add: ebind_eq_Inr demo_defs arma_defs Update_defs)
  then obtain t' where t: "Updates_at demo_ifc demo_config [1, 3] demo_agent = Inr t'" ..
  have n: "\<forall>c \<in> set [1, 3 :: size_t].
             \<not> unat (TargetNetworkSyncInterval demo_config) dvd unat c"
    by (simp add: demo_defs)
  from targets_change_only_by_SoftUpdate
         [of demo_ifc demo_config demo_stepped demo_learned "[1, 3]" demo_agent t']
       demo_Update_stepped t n
  have "targetQ1Network t' = targetQ1Network demo_agent \<and>
        targetQ2Network t' = targetQ2Network demo_agent"
    by blast
  with t demo_Update_stepped show ?thesis
    by (simp add: demo_defs)
qed

subsection \<open>When an episode step learns\<close>





subsection \<open>The actor step\<close>

text \<open>
  What lines 203 to 248 do in a learning update that returns. Let \<open>piv\<close> be the
  policy's prediction on the sampled states and \<open>Q1\<close>, \<open>Q2\<close> the predictions of the
  two learning critics, as they are after their own step, on \<open>piv\<close> stacked on the
  states. For every sample \<open>i\<close> the critic that is backpropagated is critic 1 if
  \<open>Q1\<^sub>i < Q2\<^sub>i\<close> and critic 2 otherwise, so its prediction is the lower of the two;
  its forward output, negated, is the output gradient of its \<^verbatim>\<open>Backward\<close>. The result
  \<^verbatim>\<open>gradQ\<close> of that call is what \<^verbatim>\<open>Backward\<close> returns everywhere in the file, the gradient
  with respect to the critic's parameters. Its first rows, as many as the policy's
  output has, are what the policy's \<^verbatim>\<open>Backward\<close> receives; the result of that pass is
  the sample's gradient. The accumulated gradient is, entry by entry, the sum of the
  samples' gradients, with no division. The policy's new parameters and the new state
  of its optimizer are those of one optimizer step from the old ones along the
  accumulated gradient with the configured step size.
\<close>

lemma Update_policy_step:
  assumes "Update ifc config s = Inr s'"
  shows "\<exists>b piv qInput Q1 Q2 grads gradient.
     b = fst (replay_Sample ifc (replayMethod s)) \<and>
     rowvec_of (policy_Predict ifc (policyNetwork s) (sampledStates b)) = Inr piv \<and>
     join_vert (mat_of_rowvec piv) (sampledStates b) = Inr qInput \<and>
     rowvec_of (q_Predict ifc (learningQ1Network s') qInput) = Inr Q1 \<and>
     rowvec_of (q_Predict ifc (learningQ2Network s') qInput) = Inr Q2 \<and>
     length grads = n_cols (sampledStates b) \<and>
     (\<forall>i < n_cols (sampledStates b). \<exists>a critic gradQ.
          colvec_of (policy_Forward ifc (policyNetwork s) [sampledStates b ! i]) = Inr a \<and>
          critic = (if Q1 ! i < Q2 ! i then learningQ1Network s' else learningQ2Network s') \<and>
          map hd (q_Predict ifc critic qInput) ! i = min (Q1 ! i) (Q2 ! i) \<and>
          gradQ = q_Backward ifc critic [a @ sampledStates b ! i]
                    (mat_neg (q_Forward ifc critic [a @ sampledStates b ! i])) \<and>
          grads ! i = policy_Backward ifc (policyNetwork s) [sampledStates b ! i]
                        (map (take (length a)) gradQ) \<and>
          same_size (grads ! i) gradient) \<and>
     (n_cols (sampledStates b) = 0 \<longrightarrow> gradient = []) \<and>
     (\<forall>c r. c < length gradient \<longrightarrow> r < length (gradient ! c) \<longrightarrow>
        gradient ! c ! r = (\<Sum>i < n_cols (sampledStates b). grads ! i ! c ! r)) \<and>
     policyNetwork s' =
       fst (updater_Update ifc (policyNetworkUpdater s) (policyNetwork s)
              (StepSize config) gradient) \<and>
     policyNetworkUpdater s' =
       snd (updater_Update ifc (policyNetworkUpdater s) (policyNetwork s)
              (StepSize config) gradient)"
proof -
  from Update_Inr[OF assms] obtain b rp nextQ s1 s2 where
    sm: "replay_Sample ifc (replayMethod s) = (b, rp)"
    and c: "Update_critics ifc config (s\<lparr>replayMethod := rp\<rparr>) b nextQ = Inr s1"
    and a: "Update_actor ifc config s1 b = Inr s2"
    and t: "Update_target config s2 = Inr s'"
    by blast
  from Update_critics_frame[OF c]
  have f1: "policyNetwork s1 = policyNetwork s" "policyNetworkUpdater s1 = policyNetworkUpdater s"
    by auto
  from Update_actor_Inr[OF a] obtain piv qInput Q1 Q2 gradient where
    p: "rowvec_of (policy_Predict ifc (policyNetwork s1) (sampledStates b)) = Inr piv"
    and j: "join_vert (mat_of_rowvec piv) (sampledStates b) = Inr qInput"
    and q1: "rowvec_of (q_Predict ifc (learningQ1Network s1) qInput) = Inr Q1"
    and q2: "rowvec_of (q_Predict ifc (learningQ2Network s1) qInput) = Inr Q2"
    and l: "gradient_loop ifc s1 (sampledStates b) piv Q1 Q2
              [0 ..< n_cols (sampledStates b)] [] = Inr gradient"
    and s2: "s2 = s1\<lparr>policyNetwork :=
                    fst (updater_Update ifc (policyNetworkUpdater s1) (policyNetwork s1)
                           (StepSize config) gradient),
                  policyNetworkUpdater :=
                    snd (updater_Update ifc (policyNetworkUpdater s1) (policyNetwork s1)
                           (StepSize config) gradient)\<rparr>"
    by (elim exE conjE)
  from Update_target_frame[OF t] obtain t1 t2 where
    s': "s' = s2\<lparr>targetQ1Network := t1, targetQ2Network := t2\<rparr>" by blast
  have f2: "learningQ1Network s' = learningQ1Network s1"
    "learningQ2Network s' = learningQ2Network s1"
    "policyNetwork s' = fst (updater_Update ifc (policyNetworkUpdater s1) (policyNetwork s1)
                           (StepSize config) gradient)"
    "policyNetworkUpdater s' = snd (updater_Update ifc (policyNetworkUpdater s1) (policyNetwork s1)
                           (StepSize config) gradient)"
    unfolding s' s2 by simp_all
  from gradient_loop_all[OF l] obtain grads where
    g: "length grads = n_cols (sampledStates b)"
    "\<forall>i < n_cols (sampledStates b).
       sample_gradient ifc s1 (sampledStates b) piv Q1 Q2 i = Inr (grads ! i)"
    "\<forall>i < n_cols (sampledStates b). same_size (grads ! i) gradient"
    "n_cols (sampledStates b) = 0 \<longrightarrow> gradient = []"
    "\<forall>c r. c < length gradient \<longrightarrow> r < length (gradient ! c) \<longrightarrow>
        gradient ! c ! r = (\<Sum>i < n_cols (sampledStates b). grads ! i ! c ! r)"
    by (elim exE conjE)
  have per: "\<exists>a critic gradQ.
          colvec_of (policy_Forward ifc (policyNetwork s) [sampledStates b ! i]) = Inr a \<and>
          critic = (if Q1 ! i < Q2 ! i then learningQ1Network s' else learningQ2Network s') \<and>
          map hd (q_Predict ifc critic qInput) ! i = min (Q1 ! i) (Q2 ! i) \<and>
          gradQ = q_Backward ifc critic [a @ sampledStates b ! i]
                    (mat_neg (q_Forward ifc critic [a @ sampledStates b ! i])) \<and>
          grads ! i = policy_Backward ifc (policyNetwork s) [sampledStates b ! i]
                        (map (take (length a)) gradQ) \<and>
          same_size (grads ! i) gradient"
    if i: "i < n_cols (sampledStates b)" for i
  proof -
    let ?critic1 = "if Q1 ! i < Q2 ! i then learningQ1Network s1 else learningQ2Network s1"
    from g(2) i have "sample_gradient ifc s1 (sampledStates b) piv Q1 Q2 i = Inr (grads ! i)"
      by simp
    from sample_gradient_Inr[OF this] obtain a where
      a1: "colvec_of (policy_Forward ifc (policyNetwork s1) [sampledStates b ! i]) = Inr a"
      and a2: "grads ! i = policy_Backward ifc (policyNetwork s1) [sampledStates b ! i]
         (map (take (length a))
            (q_Backward ifc ?critic1 [a @ sampledStates b ! i]
               (mat_neg (q_Forward ifc ?critic1 [a @ sampledStates b ! i]))))"
      by blast
    have a3: "map hd (q_Predict ifc ?critic1 qInput) ! i = min (Q1 ! i) (Q2 ! i)"
      using rowvec_of_Inr[OF q1] rowvec_of_Inr[OF q2] by auto
    from g(3) i have a4: "same_size (grads ! i) gradient" by simp
    show ?thesis
      unfolding f2(1,2) f1(1)[symmetric]
      using a1 a2 a3 a4 by blast
  qed
  show ?thesis
    apply (rule exI[of _ b], rule exI[of _ piv], rule exI[of _ qInput], rule exI[of _ Q1],
        rule exI[of _ Q2], rule exI[of _ grads], rule exI[of _ gradient])
    unfolding f2 f1[symmetric]
    using sm p j q1 q2 g(1,4,5) per[unfolded f2(1,2) f1(1)[symmetric]] by simp
qed

text \<open>
  C6. The claim is that the rows handed to the policy are the action block of the
  critic's gradient with respect to its input. The code slices at the height of the
  action, which is where the action sits in the input, but it slices the gradient with
  respect to the critic's parameters (line 231 asks to check the location). In the
  linear instance the critic step leaves critic 1 with the parameters (1, 0) and
  critic 2 with (2, 0); the policy, with parameter 3, predicts the actions 3 and -3.

  Sample 0, state 1: critic 1 predicts 3 and critic 2 predicts 6, so critic 1 is taken,
  with output gradient -3 at the input (3, 1). Its parameter gradient is (-9, -3), its
  input gradient (-3, 0). The code hands -9 to the policy, whose gradient is -9; the
  action block of the input gradient is -3, for a policy gradient of -3.

  Sample 1, state -1: critic 1 predicts -3 and critic 2 predicts -6, so critic 2 is
  taken, with output gradient 6 at the input (-3, -1). Its parameter gradient is
  (-18, -6), its input gradient (12, 0). The code hands -18 to the policy, whose
  gradient is 18; the action block of the input gradient is 12, for a policy gradient
  of -12.

  The code accumulates \<open>-9 + 18 = 9\<close> and steps the policy from 3 to
  \<open>3 - 0.5 * 9 = -1.5\<close>. The claimed gradient is \<open>-3 - 12 = -15\<close>, a step to 10.5.
  The choice of the critic, the negated output, the summation and the single optimizer
  step are as claimed.
\<close>

theorem Update_routes_parameter_gradient:
  "Update lin_ifc demo_config lin_agent =
     Inr (lin_agent\<lparr>learningQ1Network := [[1, 0]], learningQ2Network := [[2, 0]],
                    policyNetwork := [[3 - 1 / 2 * (- 9 + 18)]]\<rparr>) \<and>
   map hd (q_Predict lin_ifc [[1, 0]] [[3, 1], [- 3, - 1]]) = [3, - 3] \<and>
   map hd (q_Predict lin_ifc [[2, 0]] [[3, 1], [- 3, - 1]]) = [6, - 6] \<and>
   sample_gradient lin_ifc
     (lin_agent\<lparr>learningQ1Network := [[1, 0]], learningQ2Network := [[2, 0]]\<rparr>)
     [[1], [- 1]] [3, - 3] [3, - 3] [6, - 6] 0 = Inr [[- 9]] \<and>
   sample_gradient lin_ifc
     (lin_agent\<lparr>learningQ1Network := [[1, 0]], learningQ2Network := [[2, 0]]\<rparr>)
     [[1], [- 1]] [3, - 3] [3, - 3] [6, - 6] 1 = Inr [[18]] \<and>
   q_Backward lin_ifc [[1, 0]] [[3, 1]] [[- 3]] = [[- 9, - 3]] \<and>
   lin_input_gradient [[1, 0]] [[3, 1]] [[- 3]] = [[- 3, 0]] \<and>
   q_Backward lin_ifc [[2, 0]] [[- 3, - 1]] [[6]] = [[- 18, - 6]] \<and>
   lin_input_gradient [[2, 0]] [[- 3, - 1]] [[6]] = [[12, 0]] \<and>
   policy_Backward lin_ifc [[3]] [[1]] [[- 3]] = [[- 3]] \<and>
   policy_Backward lin_ifc [[3]] [[- 1]] [[12]] = [[- 12]]"
  by (simp add: lin_defs demo_defs arma_defs Update_defs)

subsection \<open>Length and return of an episode\<close>

text \<open>
  C7. Let the step limit \<open>L\<close> be positive and no state of the environment terminal. If
  \<open>L\<close> passes through the loop body from the initial sample go through without an
  error, collecting the rewards \<open>rewards\<close> and ending in \<open>s'\<close>, then \<open>Episode\<close>
  returns the sum of \<open>rewards\<close> together with \<open>s'\<close>; there are \<open>L\<close> rewards and
  the lifetime step counter has grown by \<open>L\<close>. With step limit 0, an \<open>Episode\<close> that
  returns has ended in a terminal state.
\<close>

theorem Episode_step_limit:
  "(StepLimit config \<noteq> 0 \<and> (\<forall>e st. \<not> env_IsTerminal ifc e st) \<and>
    Episode_steps ifc config (unat (StepLimit config))
      (s\<lparr>state := fst (env_InitialSample ifc (environment s)),
         environment := snd (env_InitialSample ifc (environment s))\<rparr>) = Inr (rewards, s') \<longrightarrow>
      Episode ifc config s = Some (Inr (sum_list rewards, s')) \<and>
      length rewards = unat (StepLimit config) \<and>
      totalSteps s' = totalSteps s + StepLimit config) \<and>
   (StepLimit config = 0 \<and> Episode ifc config t = Some (Inr (ret, t')) \<longrightarrow>
      env_IsTerminal ifc (environment t') (state t'))"
proof (intro conjI impI)
  assume a: "StepLimit config \<noteq> 0 \<and> (\<forall>e st. \<not> env_IsTerminal ifc e st) \<and>
    Episode_steps ifc config (unat (StepLimit config))
      (s\<lparr>state := fst (env_InitialSample ifc (environment s)),
         environment := snd (env_InitialSample ifc (environment s))\<rparr>) = Inr (rewards, s')"
  let ?s0 = "s\<lparr>state := fst (env_InitialSample ifc (environment s)),
         environment := snd (env_InitialSample ifc (environment s))\<rparr>"
  from a have st: "Episode_steps ifc config (unat (StepLimit config)) ?s0 = Inr (rewards, s')"
    and l: "StepLimit config \<noteq> 0" and nt: "\<And>e st. \<not> env_IsTerminal ifc e st"
    by blast+
  have "unat (0 :: size_t) + unat (StepLimit config) = unat (StepLimit config)" by simp
  from Episode_loop_runs[of ifc config, OF nt l this st]
  have "Episode_loop ifc config 0 0 ?s0 = Some (Inr (0 + sum_list rewards, s'))" .
  then show "Episode ifc config s = Some (Inr (sum_list rewards, s'))"
    by (simp add: Episode_def split_beta)
  from Episode_steps_length[OF st]
  show "length rewards = unat (StepLimit config)"
    and "totalSteps s' = totalSteps s + StepLimit config"
    by simp_all
next
  assume a: "StepLimit config = 0 \<and> Episode ifc config t = Some (Inr (ret, t'))"
  then have "Episode_loop ifc config 0 0
     (t\<lparr>state := fst (env_InitialSample ifc (environment t)),
        environment := snd (env_InitialSample ifc (environment t))\<rparr>) = Some (Inr (ret, t'))"
    by (simp add: Episode_def split_beta)
  from Episode_loop_unlimited_aux[OF this] a
  show "env_IsTerminal ifc (environment t') (state t')" by simp
qed

theorem Episode_step_limit_witness:
  "StepLimit demo_config \<noteq> 0 \<and>
   (\<exists>s'. Episode demo_ifc demo_config demo_agent = Some (Inr (2 + 2, s')) \<and>
         totalSteps s' = totalSteps demo_agent + 2) \<and>
   StepLimit demo_config_unlimited = 0 \<and>
   (\<exists>t'. Episode demo_ifc_terminal demo_config_unlimited demo_agent = Some (Inr (2, t')) \<and>
         env_IsTerminal demo_ifc_terminal (environment t') (state t'))"
proof -
  have "\<exists>s'. Episode_steps demo_ifc demo_config 2 demo_agent = Inr ([2, 2], s')"
    by (simp add: Episode_steps_2 demo_body)
       (simp add: body_defs demo_defs arma_defs Update_defs word_cmp)
  then obtain s' where "Episode_steps demo_ifc demo_config 2 demo_agent = Inr ([2, 2], s')" ..
  then have st: "Episode_steps demo_ifc demo_config (unat (StepLimit demo_config))
      (demo_agent\<lparr>state := fst (env_InitialSample demo_ifc (environment demo_agent)),
         environment := snd (env_InitialSample demo_ifc (environment demo_agent))\<rparr>) =
      Inr ([2, 2], s')"
    by (simp add: demo_ifc_def demo_config_def demo_agent_def)
  have nt: "\<forall>e st. \<not> env_IsTerminal demo_ifc e st" by (simp add: demo_ifc_def)
  have l: "StepLimit demo_config \<noteq> 0" by (simp add: demo_config_def)
  have "\<exists>t'. Episode demo_ifc_terminal demo_config_unlimited demo_agent = Some (Inr (2, t'))"
    by (simp add: Episode_def Episode_loop.simps body_defs demo_defs arma_defs Update_defs word_cmp)
  then obtain t' where
    t: "Episode demo_ifc_terminal demo_config_unlimited demo_agent = Some (Inr (2, t'))" ..
  have u: "StepLimit demo_config_unlimited = 0"
    by (simp add: demo_config_unlimited_def)
  from Episode_step_limit [of demo_config demo_ifc demo_agent "[2, 2]" s', THEN conjunct1]
       l nt st
  have "Episode demo_ifc demo_config demo_agent = Some (Inr (2 + 2, s')) \<and>
        totalSteps s' = totalSteps demo_agent + 2"
    by (simp add: demo_config_def)
  moreover
  from Episode_step_limit
         [of demo_config_unlimited demo_ifc_terminal _ _ _ demo_agent 2 t', THEN conjunct2] u t
  have "env_IsTerminal demo_ifc_terminal (environment t') (state t')" by simp
  ultimately show ?thesis using l u t by blast
qed

subsection \<open>The stored transition\<close>



subsection \<open>Action selection\<close>

text \<open>
  C9. Let \<open>raw\<close> be the policy's prediction for the encoded current state. When
  \<open>SelectAction\<close> returns: in deterministic mode it has written \<open>raw\<close> to component 0
  of the action, the only component the file ever writes, and nothing else; otherwise
  it has drawn one number \<open>u\<close> from the generator and written \<open>raw + noise\<close>, where
  \<open>noise\<close> is \<open>u * 0.1\<close> clamped to the band from -0.25 to 0.25: the clamp is on the
  noise, not on the sum. For \<open>u\<close> between 0 and 1 the noise is \<open>u / 10\<close>.
\<close>

theorem SelectAction_sets_action:
  assumes "SelectAction ifc s = Inr s'"
  defines "raw \<equiv> hd (hd (policy_Predict ifc (policyNetwork s) [Encode ifc (state s)]))"
      and "u \<equiv> hd (fst (randu ifc 1 (rng s)))"
  shows "(deterministic s \<longrightarrow> s' = s\<lparr>action := (action s)[0 := raw]\<rparr>) \<and>
         (\<not> deterministic s \<longrightarrow>
            s' = s\<lparr>rng := snd (randu ifc 1 (rng s)),
                   action := (action s)[0 := raw +
                     (if u * (1 / 10) < - (25 / 100) then - (25 / 100)
                      else if 25 / 100 < u * (1 / 10) then 25 / 100
                      else u * (1 / 10))]\<rparr>) \<and>
         (0 \<le> u \<and> u \<le> 1 \<longrightarrow>
            (if u * (1 / 10) < - (25 / 100) then - (25 / 100)
             else if 25 / 100 < u * (1 / 10) then 25 / 100
             else u * (1 / 10)) = u / 10)"
proof (intro conjI impI)
  obtain outputAction where out: "rowvec_of (policy_Predict ifc (policyNetwork s) [Encode ifc (state s)]) = Inr outputAction"
    using assms(1) by (auto simp: SelectAction_def ebind_eq_Inr)
  then have oa: "outputAction = map hd (policy_Predict ifc (policyNetwork s) [Encode ifc (state s)])"
    by (simp add: rowvec_of_Inr)
  {
    assume d: "deterministic s"
    with assms(1) out have "outputAction \<noteq> []" "s' = s\<lparr>action := (action s)[0 := outputAction ! 0]\<rparr>"
      by (auto simp: SelectAction_def split: if_splits)
    moreover from this oa have "outputAction ! 0 = raw"
      by (cases "policy_Predict ifc (policyNetwork s) [Encode ifc (state s)]") (auto simp: raw_def)
    ultimately show "s' = s\<lparr>action := (action s)[0 := raw]\<rparr>" by simp
  }
  {
    assume d: "\<not> deterministic s"
    obtain us g where r: "randu ifc 1 (rng s) = (us, g)" by (cases "randu ifc 1 (rng s)")
    from assms(1) out d r obtain out2 where
      a: "vec_add outputAction (clamp (map (\<lambda>x. x * (1 / 10)) us) (- (25 / 100)) (25 / 100)) = Inr out2"
      and n: "out2 \<noteq> []" and s': "s' = s\<lparr>rng := g, action := (action s)[0 := out2 ! 0]\<rparr>"
      by (auto simp: SelectAction_def ebind_eq_Inr Let_def split: if_splits)
    from vec_add_Inr[OF a] n have "outputAction \<noteq> []" "us \<noteq> []"
      and o2: "out2 = map2 (+) outputAction (clamp (map (\<lambda>x. x * (1 / 10)) us) (- (25 / 100)) (25 / 100))"
      by (auto simp: clamp_def)
    then have "out2 ! 0 = raw + (if u * (1 / 10) < - (25 / 100) then - (25 / 100)
                      else if 25 / 100 < u * (1 / 10) then 25 / 100
                      else u * (1 / 10))"
      using oa r
      by (cases "policy_Predict ifc (policyNetwork s) [Encode ifc (state s)]"; cases us)
         (auto simp: raw_def u_def clamp_def)
    with s' r show "s' = s\<lparr>rng := snd (randu ifc 1 (rng s)),
                   action := (action s)[0 := raw +
                     (if u * (1 / 10) < - (25 / 100) then - (25 / 100)
                      else if 25 / 100 < u * (1 / 10) then 25 / 100
                      else u * (1 / 10))]\<rparr>" by simp
  }
  {
    assume "0 \<le> u \<and> u \<le> 1"
    then show "(if u * (1 / 10) < - (25 / 100) then - (25 / 100)
             else if 25 / 100 < u * (1 / 10) then 25 / 100
             else u * (1 / 10)) = u / 10" by auto
  }
qed

theorem SelectAction_sets_action_witness:
  "SelectAction demo_ifc demo_agent = Inr (demo_agent\<lparr>rng := 1, action := [5 + 1 / 20]\<rparr>) \<and>
   SelectAction demo_ifc (demo_agent\<lparr>deterministic := True\<rparr>) =
     Inr (demo_agent\<lparr>deterministic := True, action := [5]\<rparr>)"
proof -
  have a: "SelectAction demo_ifc demo_agent = Inr (demo_agent\<lparr>rng := 1, action := [5 + 1 / 20]\<rparr>)"
    by (simp add: SelectAction_def demo_defs arma_defs)
  have b: "SelectAction demo_ifc (demo_agent\<lparr>deterministic := True\<rparr>) =
     Inr (demo_agent\<lparr>deterministic := True, action := [5]\<rparr>)"
    by (simp add: SelectAction_def demo_defs arma_defs)
  from SelectAction_sets_action[OF a] SelectAction_sets_action[OF b] a b
  show ?thesis by simp
qed

subsection \<open>Construction\<close>

text \<open>
  C10. In the agent the constructor returns, the parameters of target critic 1 are
  those of learning critic 1 and the parameters of target critic 2 are those of
  learning critic 2.
\<close>

theorem SAC_targets_copy_critics:
  "targetQ1Network (SAC ifc q1 pol rp qu pu env g st0 a0) =
     learningQ1Network (SAC ifc q1 pol rp qu pu env g st0 a0) \<and>
   targetQ2Network (SAC ifc q1 pol rp qu pu env g st0 a0) =
     learningQ2Network (SAC ifc q1 pol rp qu pu env g st0 a0)"
  by (simp add: SAC_def Let_def split: prod.splits)

end
